theory Spec2Isabelle
  imports Main
begin

section \<open>Conventions of the embedding\<close>

text \<open>
  The theory embeds parts of \<^verbatim>\<open>src/game/state.cpp\<close>. Coin amounts (\<^verbatim>\<open>CAmount\<close>, a signed
  64-bit integer counting units of \<open>10^-8\<close> coin) and block heights are modelled as
  \<^typ>\<open>int\<close>: every amount the engine handles is bounded by the coin supply, far below
  \<open>2^63\<close>. C++ division truncates towards zero; \<open>cdiv\<close> is that division.
  An \<^verbatim>\<open>assert\<close> that fails halts the program; the model returns \<open>Inl AssertionFailed\<close>.
  A draw from an empty range, which divides by zero in the generator, is \<open>Inl EmptyRange\<close>.
\<close>

datatype error = AssertionFailed | EmptyRange

definition cdiv :: "int \<Rightarrow> int \<Rightarrow> int" where
  "cdiv a b = (if (a < 0) = (b < 0) then \<bar>a\<bar> div \<bar>b\<bar> else - (\<bar>a\<bar> div \<bar>b\<bar>))"

definition COIN :: int where
  "COIN = 100000000"

section \<open>Merchant offers\<close>

text \<open>
  The merchant numbers \<^verbatim>\<open>MERCH_*\<close> and \<^verbatim>\<open>PRICE_RING_IMMORTALITY\<close> are macros of a header
  that is not among the sources; they are parameters of the model.
\<close>

record MerchConsts =
  MERCH_ARMOR_BUFFCOAT :: int
  MERCH_ARMOR_LINEN :: int
  MERCH_ARMOR_SCALE :: int
  MERCH_ARMOR_SPLINT :: int
  MERCH_ARMOR_PLATE :: int
  MERCH_STINKING_CLOUD :: int
  MERCH_RING_WORD_RECALL :: int
  MERCH_STAFF_FIREBALL :: int
  MERCH_STAFF_REAPER :: int
  MERCH_AMULET_LIFE_SAVING :: int
  MERCH_RING_IMMORTALITY :: int
  MERCH_WEAPON_ESTOC :: int
  MERCH_WEAPON_SWORD :: int
  MERCH_WEAPON_XBOW :: int
  MERCH_WEAPON_XBOW3 :: int
  MERCH_STAFF_LIGHTNING :: int
  PRICE_RING_IMMORTALITY :: int

text \<open>The first block of \<^verbatim>\<open>Rpg_getMerchantOffer\<close>: the base price of merchant \<open>m\<close>.\<close>

definition Rpg_MOf_base :: "MerchConsts \<Rightarrow> int \<Rightarrow> int" where
  "Rpg_MOf_base K m =
    (if m = MERCH_ARMOR_BUFFCOAT K then 50
     else if m = MERCH_ARMOR_LINEN K then 35
     else if m = MERCH_ARMOR_SCALE K then 80
     else if m = MERCH_ARMOR_SPLINT K then 80
     else if m = MERCH_ARMOR_PLATE K then 90
     else if m = MERCH_STINKING_CLOUD K then 20
     else if m = MERCH_RING_WORD_RECALL K then 30
     else if m = MERCH_STAFF_FIREBALL K then 20
     else if m = MERCH_STAFF_REAPER K then 20
     else if m = MERCH_AMULET_LIFE_SAVING K then 20
     else if m = MERCH_RING_IMMORTALITY K then PRICE_RING_IMMORTALITY K
     else if m = MERCH_WEAPON_ESTOC K then 50
     else if m = MERCH_WEAPON_SWORD K then 15
     else if m = MERCH_WEAPON_XBOW K then 30
     else if m = MERCH_WEAPON_XBOW3 K then 60
     else if m = MERCH_STAFF_LIGHTNING K then 90
     else 0)"

text \<open>
  \<^verbatim>\<open>Rpg_getMerchantOffer(m, h)\<close> writes the globals \<^verbatim>\<open>Rpgcache_MOf\<close> and
  \<^verbatim>\<open>Rpgcache_MOf_discount\<close> and returns the former; the model returns the pair.
  \<open>last_sale\<close> is the array \<^verbatim>\<open>Merchant_last_sale\<close>.
\<close>

definition Rpg_getMerchantOffer :: "MerchConsts \<Rightarrow> (int \<Rightarrow> int) \<Rightarrow> int \<Rightarrow> int \<Rightarrow> int \<times> int" where
  "Rpg_getMerchantOffer K last_sale m h =
    (let MOf = Rpg_MOf_base K m in
     if h \<le> 0 \<or> last_sale m \<le> 0 then (MOf, 0)
     else if h - last_sale m > 10000 then (cdiv MOf 10, 90)
     else if h - last_sale m > 5000 then (cdiv (MOf * 3) 10, 70)
     else if h - last_sale m > 2000 then (cdiv (MOf * 5) 10, 50)
     else if h - last_sale m > 1000 then (cdiv (MOf * 6) 10, 40)
     else if h - last_sale m > 500 then (cdiv (MOf * 7) 10, 30)
     else if h - last_sale m > 200 then (cdiv (MOf * 8) 10, 20)
     else if h - last_sale m > 100 then (cdiv (MOf * 9) 10, 10)
     else (MOf, 0))"

text \<open>
  The macro \<^verbatim>\<open>AI_BUY_FROM_MERCHANT(S, I, M)\<close>, with \<^verbatim>\<open>RULE_CAN_AFFORD\<close> expanded. It works on
  the item slot \<open>S\<close> of the buyer, the buyer's \<^verbatim>\<open>loot.nAmount\<close> and the array
  \<^verbatim>\<open>Merchant_sats_received\<close>.
\<close>

record buyer =
  slot :: int
  loot_nAmount :: int
  Merchant_sats_received :: "int \<Rightarrow> int"

definition AI_BUY_FROM_MERCHANT ::
  "MerchConsts \<Rightarrow> (int \<Rightarrow> int) \<Rightarrow> (int \<Rightarrow> bool) \<Rightarrow> bool \<Rightarrow> int \<Rightarrow> buyer \<Rightarrow> int \<Rightarrow> int \<Rightarrow> buyer" where
  "AI_BUY_FROM_MERCHANT K last_sale Merchant_exists AI_dbg_allow_payments out_height b I M =
    (let MOf = fst (Rpg_getMerchantOffer K last_sale M out_height) in
     if slot b \<noteq> I \<and> Merchant_exists M \<and> loot_nAmount b \<ge> MOf * COIN then
       (if AI_dbg_allow_payments
        then b\<lparr>slot := I, loot_nAmount := loot_nAmount b - MOf * COIN,
               Merchant_sats_received := (Merchant_sats_received b)(M := Merchant_sats_received b M + MOf * COIN)\<rparr>
        else b\<lparr>slot := I\<rparr>)
     else b)"

text \<open>The discount ladder in the words of the specification: the percentage of the base
  price that is charged when \<open>d\<close> blocks have passed since the merchant's last sale.\<close>

definition ladder_percent :: "int \<Rightarrow> int" where
  "ladder_percent d =
    (if d > 10000 then 10 else if d > 5000 then 30 else if d > 2000 then 50
     else if d > 1000 then 60 else if d > 500 then 70 else if d > 200 then 80
     else if d > 100 then 90 else 100)"

definition ladder_price :: "int \<Rightarrow> int \<Rightarrow> int" where
  "ladder_price base d = (base * ladder_percent d) div 100"

section \<open>The world model\<close>

text \<open>
  The structs of the world are declared in \<^verbatim>\<open>game/state.h\<close>, which is not among the
  sources; the records below carry the fields that the embedded functions of
  \<^verbatim>\<open>state.cpp\<close> read or write. A \<^verbatim>\<open>std::map\<close> is an association list that holds each key
  once, in the order of iteration; a \<^verbatim>\<open>std::set\<close> that is iterated is a list. The field
  \<^verbatim>\<open>value\<close> of a player is called \<open>pvalue\<close>, the map \<^verbatim>\<open>loot\<close> of the game state
  \<open>gs_loot\<close>, and the fields of a bounty carry the prefix \<open>bounty\<close>.
\<close>

type_synonym Coord = "int \<times> int"  \<comment> \<open>\<open>(x, y)\<close>\<close>
type_synonym PlayerID = string
type_synonym CharacterID = "PlayerID \<times> int"  \<comment> \<open>\<open>(player, index)\<close>\<close>

record LootInfo =
  nAmount :: int
  firstBlock :: int
  lastBlock :: int

record CollectedLootInfo = LootInfo +
  collectedFirstBlock :: int
  collectedLastBlock :: int

record CharacterState =
  coord :: Coord
  loot :: CollectedLootInfo
  stay_in_spawn_area :: int
  ai_state2 :: int

record PlayerState =
  color :: int
  pvalue :: int
  lockedCoins :: int
  remainingLife :: int
  address :: string
  characters :: "(int \<times> CharacterState) list"

datatype Fork = FORK_POISON | FORK_CARRYINGCAP | FORK_LESSHEARTS | FORK_LIFESTEAL | FORK_TIMESAVE

record GameState =
  param :: "Fork \<Rightarrow> int"  \<comment> \<open>the activation height of each fork on this network\<close>
  nHeight :: int
  nDisasterHeight :: int
  hashBlock :: nat
  players :: "(PlayerID \<times> PlayerState) list"
  gs_loot :: "(Coord \<times> LootInfo) list"
  hearts :: "Coord set"
  banks :: "(Coord \<times> nat) list"
  crownPos :: Coord
  crownHolder :: CharacterID
  gameFund :: int
  dao_MinVersion :: int
  dao_IntervalMonsterApocalypse :: int
  dao_DlevelMax :: int

datatype Reason = KILLED_DESTRUCT | KILLED_SPAWN | KILLED_POISON

record KilledByInfo =
  reason :: Reason
  killer :: CharacterID

record CollectedBounty =
  bounty_character :: CharacterID
  bounty_loot :: CollectedLootInfo
  bounty_address :: string

record StepResult =
  killedPlayers :: "PlayerID set"
  killedBy :: "(PlayerID \<times> KilledByInfo) set"
  bounties :: "CollectedBounty list"
  nTaxAmount :: int

subsection \<open>Helpers declared outside the sources\<close>

text \<open>Modelled from the spec: \<^verbatim>\<open>ForkInEffect\<close> and \<^verbatim>\<open>IsForkHeight\<close> of the consensus rules are
  declared in a header that is not among the sources. A fork is a named rule change keyed
  by its activation height (glossary); \<open>ForkInEffect\<close> tells whether the fork has
  activated at a height, \<open>IsForkHeight\<close> whether the height is the activation height.\<close>

definition rules_ForkInEffect :: "(Fork \<Rightarrow> int) \<Rightarrow> Fork \<Rightarrow> int \<Rightarrow> bool" where
  "rules_ForkInEffect act f h = (act f \<le> h)"

definition IsForkHeight :: "(Fork \<Rightarrow> int) \<Rightarrow> Fork \<Rightarrow> int \<Rightarrow> bool" where
  "IsForkHeight act f h = (act f = h)"

text \<open>\<^verbatim>\<open>GameState::ForkInEffect (fork)\<close> asks the rules at the height of the state.\<close>

definition ForkInEffect :: "GameState \<Rightarrow> Fork \<Rightarrow> bool" where
  "ForkInEffect st f = rules_ForkInEffect (param st) f (nHeight st)"

text \<open>Modelled from the spec: the constructors \<^verbatim>\<open>LootInfo (nAmount, nHeight)\<close> and
  \<^verbatim>\<open>CollectedLootInfo ()\<close> and the methods \<^verbatim>\<open>Collect\<close> and \<^verbatim>\<open>SetRefund\<close> are declared in
  \<^verbatim>\<open>game/state.h\<close>, which is not among the sources. A \<open>LootInfo\<close> is an amount with a
  purely informational block range, a \<open>CollectedLootInfo\<close> adds a refund flag and a
  collection block range (section 3): fresh loot has the block range of its height, an empty
  collection has amount 0, \<open>Collect\<close> adds the amount handed to it (section 4.3, "adds
  loot"), and a refund holds the refunded amount, flagged by a collection range that
  starts at \<open>-1\<close>.\<close>

definition new_LootInfo :: "int \<Rightarrow> int \<Rightarrow> LootInfo" where
  "new_LootInfo a h = \<lparr>nAmount = a, firstBlock = h, lastBlock = h\<rparr>"

definition empty_CollectedLootInfo :: CollectedLootInfo where
  "empty_CollectedLootInfo = \<lparr>nAmount = 0, firstBlock = -1, lastBlock = -1,
     collectedFirstBlock = -1, collectedLastBlock = -1\<rparr>"

definition Collect :: "CollectedLootInfo \<Rightarrow> LootInfo \<Rightarrow> int \<Rightarrow> CollectedLootInfo" where
  "Collect l newLoot h =
     l\<lparr>nAmount := nAmount l + nAmount newLoot, collectedLastBlock := h\<rparr>"

definition SetRefund :: "int \<Rightarrow> int \<Rightarrow> CollectedLootInfo" where
  "SetRefund refundAmount h =
     empty_CollectedLootInfo\<lparr>nAmount := refundAmount, collectedLastBlock := h\<rparr>"

text \<open>Modelled from the spec: \<^verbatim>\<open>StepResult::KillPlayer\<close> is declared in \<^verbatim>\<open>game/state.h\<close>, which
  is not among the sources. The step result holds the set of killed players and the
  mapping from a killed player to the cause and attacker (section 3); a kill records both.\<close>

definition KillPlayer :: "PlayerID \<Rightarrow> KilledByInfo \<Rightarrow> StepResult \<Rightarrow> StepResult" where
  "KillPlayer victim k res =
     res\<lparr>killedPlayers := insert victim (killedPlayers res),
         killedBy := insert (victim, k) (killedBy res)\<rparr>"

text \<open>Modelled from the spec: \<^verbatim>\<open>RandomGenerator\<close> is declared in a header that is not among
  the sources. It is a deterministic stream seeded from a block hash; \<open>GetIntRnd n\<close> gives
  a number in \<open>[0, n)\<close> for \<open>n \<ge> 1\<close> and \<open>GetIntRnd lo hi\<close> one in \<open>[lo, hi]\<close>
  (section 4.1). The generator is the sequence \<open>raw\<close> of its outputs and the number
  \<open>pos\<close> of outputs consumed so far; that the draws are uniform is not modelled.\<close>

record RandomGenerator =
  raw :: "nat \<Rightarrow> nat"
  pos :: nat

definition GetIntRnd :: "RandomGenerator \<Rightarrow> nat \<Rightarrow> int \<times> RandomGenerator" where
  "GetIntRnd rng n = (int (raw rng (pos rng) mod n), rng\<lparr>pos := Suc (pos rng)\<rparr>)"

definition GetIntRnd2 :: "RandomGenerator \<Rightarrow> int \<Rightarrow> int \<Rightarrow> int \<times> RandomGenerator" where
  "GetIntRnd2 rng lo hi =
     (let (r, rng') = GetIntRnd rng (nat (hi - lo + 1)) in (lo + r, rng'))"

text \<open>Modelled from the spec: \<^verbatim>\<open>Coord::operator<\<close> is declared in a header that is not among
  the sources; tiles are iterated in the order of \<open>(y, x)\<close> (section 5).\<close>

definition coord_less :: "Coord \<Rightarrow> Coord \<Rightarrow> bool" where
  "coord_less a b = (snd a < snd b \<or> (snd a = snd b \<and> fst a < fst b))"

subsection \<open>Operations of \<^verbatim>\<open>std::map\<close>\<close>

text \<open>\<open>map_insert\<close> is \<^verbatim>\<open>insert\<close>: it keeps an entry that is there and puts a new one in
  the place of its key (\<open>map_place\<close>, before the first greater key). \<open>map_assign\<close> writes through an iterator, \<open>map_erase\<close> erases a key.\<close>

fun map_place :: "('k \<Rightarrow> 'k \<Rightarrow> bool) \<Rightarrow> 'k \<Rightarrow> 'v \<Rightarrow> ('k \<times> 'v) list \<Rightarrow> ('k \<times> 'v) list" where
  "map_place lt k v [] = [(k, v)]"
| "map_place lt k v ((k', v') # m) =
     (if lt k k' then (k, v) # (k', v') # m else (k', v') # map_place lt k v m)"

definition map_insert :: "('k \<Rightarrow> 'k \<Rightarrow> bool) \<Rightarrow> 'k \<Rightarrow> 'v \<Rightarrow> ('k \<times> 'v) list \<Rightarrow> ('k \<times> 'v) list" where
  "map_insert lt k v m = (if k \<in> fst ` set m then m else map_place lt k v m)"

definition map_assign :: "'k \<Rightarrow> 'v \<Rightarrow> ('k \<times> 'v) list \<Rightarrow> ('k \<times> 'v) list" where
  "map_assign k v m = map (\<lambda>(k', v'). if k' = k then (k', v) else (k', v')) m"

definition map_erase :: "'k \<Rightarrow> ('k \<times> 'v) list \<Rightarrow> ('k \<times> 'v) list" where
  "map_erase k m = filter (\<lambda>(k', v'). k' \<noteq> k) m"

section \<open>Scalar policies\<close>

text \<open>\<^verbatim>\<open>GetNameCoinAmount (param, nHeight)\<close> takes the height as an \<^verbatim>\<open>unsigned\<close>; the callers
  pass the \<^verbatim>\<open>int\<close> height of the state, which \<open>to_unsigned\<close> converts. The fork ladder
  after the first \<^verbatim>\<open>if\<close> chain of the function is unreachable.\<close>

definition to_unsigned :: "int \<Rightarrow> int" where
  "to_unsigned h = h mod 2 ^ 32"

definition GetNameCoinAmount :: "int \<Rightarrow> int" where
  "GetNameCoinAmount h =
     (if h > 30000 then 20 * COIN
      else if h > 20000 then 30 * COIN
      else if h > 10000 then 50 * COIN
      else 100 * COIN)"

section \<open>\<^verbatim>\<open>KilledByInfo\<close>\<close>

definition HasDeathTax :: "KilledByInfo \<Rightarrow> bool" where
  "HasDeathTax info = (reason info \<noteq> KILLED_SPAWN)"

definition DropCoins :: "KilledByInfo \<Rightarrow> GameState \<Rightarrow> PlayerState \<Rightarrow> error + bool" where
  "DropCoins info st victim =
     (if \<not> ForkInEffect st FORK_LESSHEARTS then Inr True
      else if remainingLife victim \<ge> 0 then Inr False
      else if remainingLife victim \<noteq> -1 then Inl AssertionFailed
      else Inr True)"

definition CanRefund :: "KilledByInfo \<Rightarrow> GameState \<Rightarrow> PlayerState \<Rightarrow> bool" where
  "CanRefund info st victim =
     (if \<not> ForkInEffect st FORK_LESSHEARTS then False
      else case reason info of
        KILLED_SPAWN \<Rightarrow>
          (if \<not> ForkInEffect st FORK_LIFESTEAL \<and> remainingLife victim \<ge> 0 then False else True)
      | KILLED_POISON \<Rightarrow> ForkInEffect st FORK_LIFESTEAL
      | KILLED_DESTRUCT \<Rightarrow> False)"

section \<open>Loot\<close>

text \<open>\<^verbatim>\<open>CharacterState::CollectLoot (newLoot, nHeight, carryCap)\<close> returns the remainder and
  updates the character.\<close>

definition CollectLoot :: "CharacterState \<Rightarrow> LootInfo \<Rightarrow> int \<Rightarrow> int \<Rightarrow> error + (CharacterState \<times> int)" where
  "CollectLoot ch newLoot h carryCap =
     (let totalBefore = nAmount (loot ch) + nAmount newLoot;
          freeCap0 = carryCap - nAmount (loot ch);
          freeCap = (if freeCap0 < 0 then 0 else freeCap0);
          remaining = (if carryCap = -1 \<or> nAmount newLoot \<le> freeCap then 0
                       else nAmount newLoot - freeCap);
          newLoot' = (if remaining > 0 then newLoot\<lparr>nAmount := nAmount newLoot - remaining\<rparr>
                      else newLoot);
          ch' = ch\<lparr>loot := Collect (loot ch) newLoot' h\<rparr>
      in if \<not> (remaining \<ge> 0 \<and> nAmount newLoot' \<ge> 0) then Inl AssertionFailed
         else if totalBefore \<noteq> nAmount (loot ch') + remaining then Inl AssertionFailed
         else if \<not> (carryCap = -1 \<or> nAmount newLoot' \<le> freeCap) then Inl AssertionFailed
         else if \<not> (nAmount newLoot' = 0 \<or> carryCap = -1 \<or> nAmount (loot ch') \<le> carryCap)
           then Inl AssertionFailed
         else Inr (ch', remaining))"

text \<open>The tables and constants of the map (\<^verbatim>\<open>game/map.h\<close>) are not among the sources; they
  are parameters of the model. \<open>walkableTiles\<close> and \<open>walkableTiles_ts_banks\<close> are the
  vectors that \<^verbatim>\<open>FillWalkableTiles\<close> fills once from the map tables and sorts; each harvest
  area is the list of its tiles.\<close>

record GameMap =
  MAP_WIDTH :: int
  MAP_HEIGHT :: int
  IsOriginalSpawnArea :: "int \<Rightarrow> int \<Rightarrow> bool"
  walkableTiles :: "Coord list"
  walkableTiles_ts_banks :: "Coord list"
  HarvestAreas :: "Coord list list"
  HarvestPortions :: "int list"
  CROWN_BONUS :: int
  TOTAL_HARVEST :: int

definition AddLoot :: "GameState \<Rightarrow> Coord \<Rightarrow> int \<Rightarrow> GameState" where
  "AddLoot st c a =
     (if a = 0 then st
      else case map_of (gs_loot st) c of
        Some li \<Rightarrow>
          (if nAmount li + a = 0 then st\<lparr>gs_loot := map_erase c (gs_loot st)\<rparr>
           else st\<lparr>gs_loot := map_assign c (li\<lparr>nAmount := nAmount li + a, lastBlock := nHeight st\<rparr>)
                                  (gs_loot st)\<rparr>)
      | None \<Rightarrow> st\<lparr>gs_loot := map_insert coord_less c (new_LootInfo a (nHeight st)) (gs_loot st)\<rparr>)"

definition GetCoinsOnMap :: "GameState \<Rightarrow> int" where
  "GetCoinsOnMap st =
     sum_list (map (\<lambda>(c, l). nAmount l) (gs_loot st))
     + sum_list (map (\<lambda>(pid, p). pvalue p + sum_list (map (\<lambda>(i, ch). nAmount (loot ch)) (characters p)))
                     (players st))"

definition PushCoordOutOfSpawnArea :: "GameMap \<Rightarrow> Coord \<Rightarrow> Coord" where
  "PushCoordOutOfSpawnArea M c =
     (let x = fst c; y = snd c in
      if \<not> IsOriginalSpawnArea M x y then c
      else if x = 0 then
        (if y = 0 then (x + 1, y + 1)
         else if y = MAP_HEIGHT M - 1 then (x + 1, y - 1)
         else (x + 1, y))
      else if x = MAP_WIDTH M - 1 then
        (if y = 0 then (x - 1, y + 1)
         else if y = MAP_HEIGHT M - 1 then (x - 1, y - 1)
         else (x - 1, y))
      else if y = 0 then (x, y + 1)
      else if y = MAP_HEIGHT M - 1 then (x, y - 1)
      else c)"

text \<open>\<^verbatim>\<open>GameState::HandleKilledLoot (pId, chInd, info, step)\<close>. \<open>cmv\<close> is the global
  \<^verbatim>\<open>Cache_min_version\<close>.\<close>

definition HandleKilledLoot ::
  "GameMap \<Rightarrow> int \<Rightarrow> GameState \<Rightarrow> PlayerID \<Rightarrow> int \<Rightarrow> KilledByInfo \<Rightarrow> StepResult
     \<Rightarrow> error + (GameState \<times> StepResult)" where
  "HandleKilledLoot M cmv st pId chInd info step =
     (case map_of (players st) pId of
        None \<Rightarrow> Inl AssertionFailed
      | Some pc \<Rightarrow>
        if pvalue pc < 0 then Inl AssertionFailed
        else case map_of (characters pc) chInd of
          None \<Rightarrow> Inl AssertionFailed
        | Some ch \<Rightarrow>
          let refunded = (chInd = 0 \<and> CanRefund info st pc);
              step1 = (if refunded
                       then step\<lparr>bounties := bounties step @
                              [\<lparr>bounty_character = (pId, chInd),
                                bounty_loot = SetRefund (pvalue pc) (nHeight st),
                                bounty_address = address pc\<rparr>]\<rparr>
                       else step)
          in if chInd = 0 \<and> \<not> refunded \<and> ForkInEffect st FORK_LIFESTEAL \<and> pvalue pc \<noteq> 0
             then Inl AssertionFailed
             else
               let nAmount1 = (if chInd = 0 \<and> \<not> refunded then nAmount (loot ch) + pvalue pc
                               else nAmount (loot ch));
                   nTax = cdiv nAmount1 25;
                   taxed = (HasDeathTax info \<and> cmv < 2020700);
                   step2 = (if taxed then step1\<lparr>nTaxAmount := nTaxAmount step1 + nTax\<rparr> else step1);
                   nAmount2 = (if taxed then nAmount1 - nTax else nAmount1)
               in case DropCoins info st pc of
                    Inl e \<Rightarrow> Inl e
                  | Inr False \<Rightarrow> Inr (st\<lparr>gameFund := gameFund st + nAmount2\<rparr>, step2)
                  | Inr True \<Rightarrow>
                      let lootPos = (if \<not> ForkInEffect st FORK_LIFESTEAL
                                     then PushCoordOutOfSpawnArea M (coord ch) else coord ch)
                      in Inr (AddLoot st lootPos nAmount2, step2))"

section \<open>\<^verbatim>\<open>AttackableCharacter\<close> and \<^verbatim>\<open>CharactersOnTiles\<close>\<close>

text \<open>The colour of an attackable character is the field \<open>acolor\<close>; its set of attackers is
  the list of its elements in the order of the set. \<^verbatim>\<open>Move\<close> is declared in
  \<^verbatim>\<open>game/move.h\<close>, which is not among the sources; the record holds what \<^verbatim>\<open>state.cpp\<close>
  reads of a move, the result of \<^verbatim>\<open>IsSpawn ()\<close> among it.\<close>

record AttackableCharacter =
  chid :: CharacterID
  acolor :: int
  drawnLife :: int
  attackers :: "CharacterID list"

record CharactersOnTiles =
  tiles :: "(Coord \<times> AttackableCharacter) list"
  built :: bool

record Move =
  player :: PlayerID
  destruct :: "int list"
  newLocked :: int
  IsSpawn :: bool

text \<open>The cache of destruct messages: \<^verbatim>\<open>Huntermsg_idx_destruct\<close> and the array
  \<^verbatim>\<open>Huntermsg_destruct\<close>, which holds the text form of a character id; the model stores
  the id. \<^verbatim>\<open>HUNTERMSG_CACHE_MAX\<close> is a macro of a header outside the sources, the parameter
  \<open>cmax\<close>.\<close>

record Huntermsg =
  Huntermsg_idx_destruct :: int
  Huntermsg_destruct :: "int \<Rightarrow> CharacterID"

text \<open>\<^verbatim>\<open>CharactersOnTiles::ApplyAttacks (state, moves)\<close>. The part of the loop body that built
  the tiles (\<^verbatim>\<open>EnsureIsBuilt\<close>) and recorded the attackers (\<^verbatim>\<open>AttackBy\<close>, \<^verbatim>\<open>AttackSelf\<close>) is
  commented out in the source, so that nothing calls these three; what is left of the body
  notes the attacking character in the message cache.\<close>

fun ApplyAttacks_destruct :: "int \<Rightarrow> PlayerID \<Rightarrow> PlayerState \<Rightarrow> int list \<Rightarrow> Huntermsg \<Rightarrow> Huntermsg" where
  "ApplyAttacks_destruct cmax p pl [] hm = hm"
| "ApplyAttacks_destruct cmax p pl (i # is) hm =
     (case map_of (characters pl) i of
        None \<Rightarrow> ApplyAttacks_destruct cmax p pl is hm
      | Some ch \<Rightarrow>
          ApplyAttacks_destruct cmax p pl is
            (if Huntermsg_idx_destruct hm < cmax - 1
             then hm\<lparr>Huntermsg_destruct := (Huntermsg_destruct hm)(Huntermsg_idx_destruct hm := (p, i)),
                     Huntermsg_idx_destruct := Huntermsg_idx_destruct hm + 1\<rparr>
             else hm))"

fun ApplyAttacks_moves :: "int \<Rightarrow> GameState \<Rightarrow> Move list \<Rightarrow> Huntermsg \<Rightarrow> error + Huntermsg" where
  "ApplyAttacks_moves cmax st [] hm = Inr hm"
| "ApplyAttacks_moves cmax st (m # ms) hm =
     (if destruct m = [] then ApplyAttacks_moves cmax st ms hm
      else case map_of (players st) (player m) of
        None \<Rightarrow> Inl AssertionFailed
      | Some pl \<Rightarrow> ApplyAttacks_moves cmax st ms (ApplyAttacks_destruct cmax (player m) pl (destruct m) hm))"

definition ApplyAttacks ::
  "int \<Rightarrow> CharactersOnTiles \<Rightarrow> GameState \<Rightarrow> Move list \<Rightarrow> Huntermsg \<Rightarrow> error + (CharactersOnTiles \<times> Huntermsg)" where
  "ApplyAttacks cmax T st moves hm =
     (case ApplyAttacks_moves cmax st moves hm of
        Inl e \<Rightarrow> Inl e
      | Inr hm' \<Rightarrow> Inr (T, hm'))"

text \<open>\<^verbatim>\<open>CharactersOnTiles::DrawLife (state, result)\<close>: \<open>DrawLife_tile\<close> is the body of its loop
  for one attackable character. The constructor \<^verbatim>\<open>KilledByInfo (chid)\<close> of the header makes
  the cause of a kill by a character \<open>KILLED_DESTRUCT\<close>.\<close>

definition DrawLife_tile ::
  "GameMap \<Rightarrow> int \<Rightarrow> AttackableCharacter \<Rightarrow> GameState \<Rightarrow> StepResult
     \<Rightarrow> error + (AttackableCharacter \<times> GameState \<times> StepResult)" where
  "DrawLife_tile M cmv a st res =
     (if attackers a = [] then Inr (a, st, res)
      else if drawnLife a \<noteq> 0 then Inl AssertionFailed
      else case map_of (players st) (fst (chid a)) of
        None \<Rightarrow> Inl AssertionFailed
      | Some victim \<Rightarrow>
        let lifeSteal = ForkInEffect st FORK_LIFESTEAL;
            damage = GetNameCoinAmount (to_unsigned (nHeight st))
        in if lifeSteal \<and> snd (chid a) \<noteq> 0 then Inl AssertionFailed
           else
             let fullDamage0 = damage * int (length (attackers a));
                 fullDamage = (if fullDamage0 > pvalue victim then pvalue victim else fullDamage0);
                 value1 = (if lifeSteal then pvalue victim - fullDamage else pvalue victim);
                 drawn1 = (if lifeSteal then drawnLife a + fullDamage else drawnLife a)
             in if lifeSteal \<and> value1 < 0 then Inl AssertionFailed
                else
                  let value2 = (if lifeSteal \<and> value1 < damage then 0 else value1);
                      drawn2 = (if lifeSteal \<and> value1 < damage then drawn1 + value1 else drawn1);
                      a' = a\<lparr>drawnLife := drawn2\<rparr>;
                      victim' = victim\<lparr>pvalue := value2\<rparr>;
                      st' = st\<lparr>players := map_assign (fst (chid a)) victim' (players st)\<rparr>
                  in if value2 < 0 \<or> drawn2 < 0 then Inl AssertionFailed
                     else if lifeSteal \<and> value2 \<noteq> 0 then
                       (if value2 < damage then Inl AssertionFailed else Inr (a', st', res))
                     else
                       let res' = (if snd (chid a) = 0
                                   then fold (\<lambda>at. KillPlayer (fst (chid a))
                                                 \<lparr>reason = KILLED_DESTRUCT, killer = at\<rparr>)
                                          (attackers a) res
                                   else res)
                       in case map_of (characters victim') (snd (chid a)) of
                            None \<Rightarrow> Inr (a', st', res')
                          | Some ch \<Rightarrow>
                              (case HandleKilledLoot M cmv st' (fst (chid a)) (snd (chid a))
                                      \<lparr>reason = KILLED_DESTRUCT, killer = hd (attackers a)\<rparr> res' of
                                 Inl e \<Rightarrow> Inl e
                               | Inr (st'', res'') \<Rightarrow>
                                   Inr (a',
                                        st''\<lparr>players := map_assign (fst (chid a))
                                               (victim'\<lparr>characters := map_erase (snd (chid a)) (characters victim')\<rparr>)
                                               (players st'')\<rparr>,
                                        res'')))"

fun DrawLife_tiles ::
  "GameMap \<Rightarrow> int \<Rightarrow> (Coord \<times> AttackableCharacter) list \<Rightarrow> GameState \<Rightarrow> StepResult
     \<Rightarrow> error + ((Coord \<times> AttackableCharacter) list \<times> GameState \<times> StepResult)" where
  "DrawLife_tiles M cmv [] st res = Inr ([], st, res)"
| "DrawLife_tiles M cmv ((c, a) # ts) st res =
     (case DrawLife_tile M cmv a st res of
        Inl e \<Rightarrow> Inl e
      | Inr (a', st', res') \<Rightarrow>
          (case DrawLife_tiles M cmv ts st' res' of
             Inl e \<Rightarrow> Inl e
           | Inr (ts', st'', res'') \<Rightarrow> Inr ((c, a') # ts', st'', res'')))"

definition DrawLife ::
  "GameMap \<Rightarrow> int \<Rightarrow> CharactersOnTiles \<Rightarrow> GameState \<Rightarrow> StepResult
     \<Rightarrow> error + (CharactersOnTiles \<times> GameState \<times> StepResult)" where
  "DrawLife M cmv T st res =
     (if \<not> built T then Inr (T, st, res)
      else case DrawLife_tiles M cmv (tiles T) st res of
        Inl e \<Rightarrow> Inl e
      | Inr (ts', st', res') \<Rightarrow> Inr (T\<lparr>tiles := ts'\<rparr>, st', res'))"

text \<open>\<^verbatim>\<open>CharactersOnTiles::DefendMutualAttacks (state)\<close>: an attacker stays in the set of a
  character only if that character does not attack it in turn.\<close>

definition DefendMutualAttacks :: "CharactersOnTiles \<Rightarrow> CharactersOnTiles" where
  "DefendMutualAttacks T =
     (if \<not> built T then T
      else
        let attacks = set (concat (map (\<lambda>(c, a). map (\<lambda>mi. (mi, chid a)) (attackers a)) (tiles T)))
        in T\<lparr>tiles := map (\<lambda>(c, a). (c, a\<lparr>attackers := filter (\<lambda>mi. (chid a, mi) \<notin> attacks) (attackers a)\<rparr>))
                            (tiles T)\<rparr>)"

section \<open>Disaster and poison\<close>

definition POISON_MIN_LIFE :: int where "POISON_MIN_LIFE = 1"
definition POISON_MAX_LIFE :: int where "POISON_MAX_LIFE = 50"

text \<open>\<^verbatim>\<open>GameState::CheckForDisaster (rng)\<close> returns at its first statement; the rest of its body
  is unreachable.\<close>

definition CheckForDisaster :: "GameState \<Rightarrow> RandomGenerator \<Rightarrow> bool \<times> RandomGenerator" where
  "CheckForDisaster st rng = (False, rng)"

text \<open>\<^verbatim>\<open>GameState::ApplyDisaster (rng)\<close>; \<open>ApplyDisaster_players\<close> is its loop over the players.\<close>

fun ApplyDisaster_players ::
  "(PlayerID \<times> PlayerState) list \<Rightarrow> RandomGenerator
     \<Rightarrow> error + ((PlayerID \<times> PlayerState) list \<times> RandomGenerator)" where
  "ApplyDisaster_players [] rng = Inr ([], rng)"
| "ApplyDisaster_players ((pid, p) # ps) rng =
     (if remainingLife p \<noteq> -1 then Inl AssertionFailed
      else
        let (r, rng') = GetIntRnd2 rng POISON_MIN_LIFE POISON_MAX_LIFE
        in case ApplyDisaster_players ps rng' of
             Inl e \<Rightarrow> Inl e
           | Inr (ps', rng'') \<Rightarrow> Inr ((pid, p\<lparr>remainingLife := r\<rparr>) # ps', rng''))"

definition ApplyDisaster :: "GameState \<Rightarrow> RandomGenerator \<Rightarrow> error + (GameState \<times> RandomGenerator)" where
  "ApplyDisaster st rng =
     (case ApplyDisaster_players (players st) rng of
        Inl e \<Rightarrow> Inl e
      | Inr (ps', rng') \<Rightarrow>
          Inr (st\<lparr>players := ps',
                  hearts := (if ForkInEffect st FORK_LESSHEARTS then {} else hearts st),
                  nDisasterHeight := nHeight st\<rparr>, rng'))"

text \<open>\<^verbatim>\<open>GameState::DecrementLife (step)\<close>. The constructor \<^verbatim>\<open>KilledByInfo (reason)\<close> of the header
  leaves the killer empty.\<close>

fun DecrementLife_players ::
  "(PlayerID \<times> PlayerState) list \<Rightarrow> StepResult \<Rightarrow> error + ((PlayerID \<times> PlayerState) list \<times> StepResult)" where
  "DecrementLife_players [] step = Inr ([], step)"
| "DecrementLife_players ((pid, p) # ps) step =
     (if remainingLife p = -1 then
        (case DecrementLife_players ps step of
           Inl e \<Rightarrow> Inl e
         | Inr (ps', step') \<Rightarrow> Inr ((pid, p) # ps', step'))
      else if \<not> remainingLife p > 0 then Inl AssertionFailed
      else
        let p' = p\<lparr>remainingLife := remainingLife p - 1\<rparr>;
            step1 = (if remainingLife p' = 0
                     then KillPlayer pid \<lparr>reason = KILLED_POISON, killer = ([], 0)\<rparr> step
                     else step)
        in case DecrementLife_players ps step1 of
             Inl e \<Rightarrow> Inl e
           | Inr (ps', step') \<Rightarrow> Inr ((pid, p') # ps', step'))"

definition DecrementLife :: "GameState \<Rightarrow> StepResult \<Rightarrow> error + (GameState \<times> StepResult)" where
  "DecrementLife st step =
     (case DecrementLife_players (players st) step of
        Inl e \<Rightarrow> Inl e
      | Inr (ps', step') \<Rightarrow> Inr (st\<lparr>players := ps'\<rparr>, step'))"

section \<open>The treasure pass of \<^verbatim>\<open>PerformStep\<close>\<close>

text \<open>The loop "drop a random reward onto the harvest areas" of \<^verbatim>\<open>PerformStep\<close>, over the
  areas paired with their portions; \<open>nTotalTreasure\<close> is its accumulator. \<open>DropTreasure\<close>
  is the loop between the computation of the crown bonus and the assertion that follows
  it, and returns the crown bonus.\<close>

fun DropTreasure_areas ::
  "int \<Rightarrow> int \<Rightarrow> (Coord list \<times> int) list \<Rightarrow> GameState \<Rightarrow> RandomGenerator \<Rightarrow> int
     \<Rightarrow> error + (GameState \<times> RandomGenerator \<times> int)" where
  "DropTreasure_areas tot T [] st rnd nTotalTreasure = Inr (st, rnd, nTotalTreasure)"
| "DropTreasure_areas tot T ((area, portion) # rest) st rnd nTotalTreasure =
     (if area = [] then Inl EmptyRange
      else
        let (a, rnd') = GetIntRnd rnd (length area);
            harvest = area ! nat a;
            nTreasure = cdiv (portion * T) tot
        in DropTreasure_areas tot T rest (AddLoot st harvest nTreasure) rnd'
             (nTotalTreasure + nTreasure))"

definition DropTreasure ::
  "GameMap \<Rightarrow> int \<Rightarrow> GameState \<Rightarrow> RandomGenerator \<Rightarrow> error + (GameState \<times> RandomGenerator \<times> int)" where
  "DropTreasure M T st rnd =
     (let nCrownBonus = cdiv (CROWN_BONUS M * T) (TOTAL_HARVEST M)
      in case DropTreasure_areas (TOTAL_HARVEST M) T (zip (HarvestAreas M) (HarvestPortions M)) st rnd 0 of
           Inl e \<Rightarrow> Inl e
         | Inr (st', rnd', nTotalTreasure) \<Rightarrow>
             if nTotalTreasure + nCrownBonus \<noteq> T then Inl AssertionFailed
             else Inr (st', rnd', nCrownBonus))"

text \<open>The amounts in the words of the specification: the share of an area with portion
  \<open>p\<close>, and the sum of the shares of all areas and of the crown bonus.\<close>

definition treasure_share :: "GameMap \<Rightarrow> int \<Rightarrow> int \<Rightarrow> int" where
  "treasure_share M T p = p * T div TOTAL_HARVEST M"

definition treasure_sum :: "GameMap \<Rightarrow> int \<Rightarrow> int" where
  "treasure_sum M T =
     sum_list (map (treasure_share M T) (HarvestPortions M)) + treasure_share M T (CROWN_BONUS M)"

section \<open>Dynamic banks\<close>

definition DYNBANKS_NUM_BANKS :: nat where "DYNBANKS_NUM_BANKS = 75"
definition DYNBANKS_MIN_LIFE :: int where "DYNBANKS_MIN_LIFE = 25"
definition DYNBANKS_MAX_LIFE :: int where "DYNBANKS_MAX_LIFE = 100"

text \<open>\<^verbatim>\<open>GameState::UpdateBanks (rng)\<close>. \<open>UpdateBanks_old\<close> is the loop over the existing banks,
  with \<open>ts\<close> the test \<^verbatim>\<open>IsForkHeight (FORK_TIMESAVE, nHeight)\<close>; \<open>UpdateBanks_refill\<close> is the
  loop that re-creates the missing banks, with \<open>k\<close> the number of rounds it has left.
  Its two branches in the source differ only in the vector of tiles they draw from. That
  vector is sorted and holds each tile once, so the \<^verbatim>\<open>std::set\<close> built from it has its
  elements in its order, and \<open>options\<close> is the vector without the tiles of the banks
  that live on.\<close>

fun UpdateBanks_old :: "bool \<Rightarrow> (Coord \<times> nat) list \<Rightarrow> (Coord \<times> nat) list \<Rightarrow> error + (Coord \<times> nat) list" where
  "UpdateBanks_old ts [] newBanks = Inr newBanks"
| "UpdateBanks_old ts ((c, life) # bs) newBanks =
     (if \<not> life \<ge> 1 then Inl AssertionFailed
      else if ts then UpdateBanks_old ts bs newBanks
      else if life > 1 then UpdateBanks_old ts bs (map_insert coord_less c (life - 1) newBanks)
      else UpdateBanks_old ts bs newBanks)"

fun UpdateBanks_refill ::
  "nat \<Rightarrow> Coord list \<Rightarrow> (Coord \<times> nat) list \<Rightarrow> RandomGenerator
     \<Rightarrow> error + ((Coord \<times> nat) list \<times> RandomGenerator)" where
  "UpdateBanks_refill 0 options newBanks rng = Inr (newBanks, rng)"
| "UpdateBanks_refill (Suc k) options newBanks rng =
     (if options = [] then Inl EmptyRange
      else
        let (ind, rng1) = GetIntRnd rng (length options);
            (life, rng2) = GetIntRnd2 rng1 DYNBANKS_MIN_LIFE DYNBANKS_MAX_LIFE;
            c = options ! nat ind
        in if c \<in> fst ` set newBanks then Inl AssertionFailed
           else UpdateBanks_refill k (take (nat ind) options @ drop (Suc (nat ind)) options)
                  (map_insert coord_less c (nat life) newBanks) rng2)"

definition UpdateBanks :: "GameMap \<Rightarrow> GameState \<Rightarrow> RandomGenerator \<Rightarrow> error + (GameState \<times> RandomGenerator)" where
  "UpdateBanks M st rng =
     (if \<not> ForkInEffect st FORK_LIFESTEAL then Inr (st, rng)
      else
        case (if IsForkHeight (param st) FORK_LIFESTEAL (nHeight st) then Inr []
              else if length (banks st) \<noteq> DYNBANKS_NUM_BANKS then Inl AssertionFailed
              else UpdateBanks_old (IsForkHeight (param st) FORK_TIMESAVE (nHeight st)) (banks st) []) of
          Inl e \<Rightarrow> Inl e
        | Inr newBanks \<Rightarrow>
            if \<not> length newBanks \<le> DYNBANKS_NUM_BANKS then Inl AssertionFailed
            else
              let tileset = (if ForkInEffect st FORK_TIMESAVE then walkableTiles_ts_banks M
                             else walkableTiles M);
                  options = filter (\<lambda>c. c \<notin> fst ` set newBanks) tileset
              in if \<not> fst ` set newBanks \<subseteq> set tileset then Inl AssertionFailed
                 else if length options + length newBanks \<noteq> length tileset then Inl AssertionFailed
                 else
                   case UpdateBanks_refill (DYNBANKS_NUM_BANKS - length newBanks) options newBanks rng of
                     Inl e \<Rightarrow> Inl e
                   | Inr (newBanks', rng') \<Rightarrow>
                       if length newBanks' \<noteq> DYNBANKS_NUM_BANKS then Inl AssertionFailed
                       else Inr (st\<lparr>banks := newBanks'\<rparr>, rng'))"



section \<open>\<^verbatim>\<open>PerformStep\<close>\<close>

text \<open>
  \<^verbatim>\<open>PerformStep\<close> works on its out-parameters \<^verbatim>\<open>outState\<close> and \<^verbatim>\<open>stepResult\<close> and on the
  global caches of \<^verbatim>\<open>state.cpp\<close>. A \<open>World\<close> holds them: the two out-parameters, the
  globals \<^verbatim>\<open>Cache_min_version\<close> and the destruct message cache, which embedded functions
  read, and as \<open>other\<close> all other globals and the fields of the game state that are
  not in the record \<open>GameState\<close> (the chat of dead players, the voting and checkpoint
  fields).

  The passes for artificial intelligence, path finding, ranged combat, voting, spawning
  and loot division (several thousand lines, some of them in \<^verbatim>\<open>move.cpp\<close>, which is not
  among the sources) are parameters of the model: a pass is any function from worlds to
  worlds that may fail an assertion. \<open>FrontEngine\<close> has the passes that run before the
  test of the block hash, \<open>BackEngine\<close> those that run after it. The theorems on
  \<open>PerformStep\<close> hold for every choice of these passes.
\<close>

record 'g World =
  outState :: GameState
  stepResult :: StepResult
  Cache_min_version :: int
  huntermsg :: Huntermsg
  other :: 'g

record StepData =
  newHash :: nat
  vMoves :: "Move list"
  nTreasureAmount :: int

type_synonym 'g pass = "'g World \<Rightarrow> error + 'g World"

record 'g FrontEngine =
  IsValid :: "Move \<Rightarrow> GameState \<Rightarrow> bool"
  HUNTERMSG_CACHE_MAX :: int
  AI_STATE2_STASIS :: "int \<Rightarrow> bool"  \<comment> \<open>the test \<^verbatim>\<open>ai_state2 & AI_STATE2_STASIS\<close>\<close>
  IsPlayerSpawnTile :: "Coord \<Rightarrow> bool"  \<comment> \<open>\<^verbatim>\<open>IsInsideMap\<close> and the flag \<^verbatim>\<open>SPAWNMAPFLAG_PLAYER\<close>\<close>
  DungeonLevelCache :: "'g pass"  \<comment> \<open>the writes to the \<^verbatim>\<open>Cache_gameround\<close> and \<^verbatim>\<open>Cache_timeslot\<close> globals\<close>
  Pass0_CacheDataForGame :: "'g pass"
  Pass1_DAO :: "'g pass"
  KillSpawnArea :: "'g pass"
  KillRangedAttacks :: "'g pass"
  FinaliseKills :: "'g pass"
  RemoveHeartedCharacters :: "'g pass"
  ApplyWaypoints :: "Move \<Rightarrow> 'g pass"
  Pass2_Melee :: "'g pass"
  PathFinding :: "nat \<Rightarrow> 'g pass"  \<comment> \<open>the loop over the players, with the seed of \<^verbatim>\<open>rnd0\<close>\<close>
  Pass3_PaymentAndHitscan :: "'g pass"
  Pass4_Refund :: "'g pass"

record 'g BackEngine =
  seed :: "nat \<Rightarrow> RandomGenerator"  \<comment> \<open>the constructor \<^verbatim>\<open>RandomGenerator (hashBlock)\<close>\<close>
  DistributeDrawnLife_built :: "CharactersOnTiles \<Rightarrow> RandomGenerator \<Rightarrow> 'g World \<Rightarrow> error + ('g World \<times> RandomGenerator)"
  ApplySpawn :: "Move \<Rightarrow> RandomGenerator \<Rightarrow> 'g World \<Rightarrow> error + ('g World \<times> RandomGenerator)"
  ApplyCommon :: "Move \<Rightarrow> 'g pass"
  DeadPlayersChat :: "GameState \<Rightarrow> 'g pass"  \<comment> \<open>the colours of \<^verbatim>\<open>dead_players_chat\<close>, from \<^verbatim>\<open>inState\<close>\<close>
  DivideLootAmongPlayers :: "'g pass"
  CrownBonus :: "int \<Rightarrow> 'g pass"
  DynamicCheckpoint :: "'g pass"
  DropHeartPass :: "RandomGenerator \<Rightarrow> 'g World \<Rightarrow> error + ('g World \<times> RandomGenerator)"
  CollectHearts :: "RandomGenerator \<Rightarrow> 'g World \<Rightarrow> error + ('g World \<times> RandomGenerator)"
  CollectCrown :: "bool \<Rightarrow> RandomGenerator \<Rightarrow> 'g World \<Rightarrow> error + ('g World \<times> RandomGenerator)"

text \<open>Sequencing of steps that may halt.\<close>

definition seq :: "error + 'a \<Rightarrow> ('a \<Rightarrow> error + 'b) \<Rightarrow> error + 'b" where
  "seq m f = (case m of Inl e \<Rightarrow> Inl e | Inr x \<Rightarrow> f x)"

fun foldE :: "('a \<Rightarrow> 'b \<Rightarrow> error + 'b) \<Rightarrow> 'a list \<Rightarrow> 'b \<Rightarrow> error + 'b" where
  "foldE f [] b = Inr b"
| "foldE f (x # xs) b = seq (f x b) (foldE f xs)"

definition STATE_VERSION :: int where "STATE_VERSION = 2020600"
definition MIN_GAMEROUND_DURATION :: int where "MIN_GAMEROUND_DURATION = 2000"

text \<open>The loop "pay out game fees": one move, on the state and the sum \<open>moneyIn\<close>.\<close>

definition PayGameFee :: "Move \<Rightarrow> GameState \<times> int \<Rightarrow> error + (GameState \<times> int)" where
  "PayGameFee m a =
     (let st = fst a; moneyIn = snd a in
      if \<not> IsSpawn m then
        (case map_of (players st) (player m) of
           None \<Rightarrow> Inl AssertionFailed
         | Some pl \<Rightarrow>
             if \<not> newLocked m \<ge> lockedCoins pl then Inl AssertionFailed
             else
               let newFee = newLocked m - lockedCoins pl
               in Inr (st\<lparr>gameFund := gameFund st + newFee,
                          players := map_assign (player m) (pl\<lparr>lockedCoins := newLocked m\<rparr>) (players st)\<rparr>,
                       moneyIn + newFee))
      else Inr (st, moneyIn + newLocked m))"

definition IsBank :: "GameState \<Rightarrow> Coord \<Rightarrow> error + bool" where
  "IsBank st c = (if banks st = [] then Inl AssertionFailed else Inr (c \<in> fst ` set (banks st)))"

definition UpdateCrownState :: "GameState \<Rightarrow> error + (GameState \<times> bool)" where
  "UpdateCrownState st =
     (if fst (crownHolder st) = [] then Inr (st, False)
      else case map_of (players st) (fst (crownHolder st)) of
        None \<Rightarrow> Inr (st\<lparr>crownHolder := ([], 0)\<rparr>, False)
      | Some pl \<Rightarrow>
          (case map_of (characters pl) (snd (crownHolder st)) of
             None \<Rightarrow> Inr (st\<lparr>crownHolder := ([], 0)\<rparr>, False)
           | Some ch \<Rightarrow>
               seq (IsBank st (coord ch))
                 (\<lambda>b. if b then Inr (st\<lparr>crownHolder := ([], 0)\<rparr>, True)
                      else Inr (st\<lparr>crownPos := coord ch\<rparr>, False))))"

text \<open>The banking loop of \<^verbatim>\<open>PerformStep\<close>: one character of player \<open>pid\<close> with address
  \<open>addr\<close>; the characters of a player; the players.\<close>

definition Banking_character ::
  "'g FrontEngine \<Rightarrow> int \<Rightarrow> GameState \<Rightarrow> PlayerID \<Rightarrow> string \<Rightarrow> int \<times> CharacterState \<Rightarrow> StepResult
     \<Rightarrow> error + ((int \<times> CharacterState) \<times> StepResult)" where
  "Banking_character F cmv st pid addr ic res =
     (let i = fst ic; ch = snd ic in
      if AI_STATE2_STASIS F (ai_state2 ch) then Inr (ic, res)
      else
        seq (if nAmount (loot ch) > 0
             then seq (IsBank st (coord ch))
                    (\<lambda>b. Inr (b \<or> (ForkInEffect st FORK_TIMESAVE \<and> IsPlayerSpawnTile F (coord ch))))
             else Inr False)
          (\<lambda>banking.
             if banking then
               let nTax = (if cmv \<ge> 2020700 then 0 else cdiv (nAmount (loot ch)) 10);
                   l = (loot ch)\<lparr>nAmount := nAmount (loot ch) - nTax\<rparr>
               in Inr ((i, ch\<lparr>loot := empty_CollectedLootInfo\<rparr>),
                       res\<lparr>nTaxAmount := nTaxAmount res + nTax,
                           bounties := bounties res @
                             [\<lparr>bounty_character = (pid, i), bounty_loot = l, bounty_address = addr\<rparr>]\<rparr>)
             else Inr (ic, res)))"

fun Banking_characters ::
  "'g FrontEngine \<Rightarrow> int \<Rightarrow> GameState \<Rightarrow> PlayerID \<Rightarrow> string \<Rightarrow> (int \<times> CharacterState) list \<Rightarrow> StepResult
     \<Rightarrow> error + ((int \<times> CharacterState) list \<times> StepResult)" where
  "Banking_characters F cmv st pid addr [] res = Inr ([], res)"
| "Banking_characters F cmv st pid addr (ic # ics) res =
     seq (Banking_character F cmv st pid addr ic res)
       (\<lambda>(ic', res'). seq (Banking_characters F cmv st pid addr ics res')
          (\<lambda>(ics', res''). Inr (ic' # ics', res'')))"

fun Banking_players ::
  "'g FrontEngine \<Rightarrow> int \<Rightarrow> GameState \<Rightarrow> (PlayerID \<times> PlayerState) list \<Rightarrow> StepResult
     \<Rightarrow> error + ((PlayerID \<times> PlayerState) list \<times> StepResult)" where
  "Banking_players F cmv st [] res = Inr ([], res)"
| "Banking_players F cmv st ((pid, p) # ps) res =
     seq (Banking_characters F cmv st pid (address p) (characters p) res)
       (\<lambda>(cs', res'). seq (Banking_players F cmv st ps res')
          (\<lambda>(ps', res''). Inr ((pid, p\<lparr>characters := cs'\<rparr>) # ps', res'')))"

definition Banking :: "'g FrontEngine \<Rightarrow> 'g pass" where
  "Banking F W =
     seq (Banking_players F (Cache_min_version W) (outState W) (players (outState W)) (stepResult W))
       (\<lambda>(ps', res'). Inr (W\<lparr>outState := (outState W)\<lparr>players := ps'\<rparr>, stepResult := res'\<rparr>))"

text \<open>\<^verbatim>\<open>PerformStep\<close> up to the test of the block hash. It either returns \<^verbatim>\<open>false\<close>
  (\<open>Rejected\<close>) or reaches the test with the attacked tiles, the sum \<open>moneyIn\<close> and the
  flag \<^verbatim>\<open>respawn_crown\<close> (\<open>Reached\<close>). \<open>W0\<close> holds the out-parameters and globals as the
  caller left them; \<open>PerformStep_init\<close> is the part before the fees are paid.\<close>

datatype 'g front = Rejected "'g World" | Reached "'g World" CharactersOnTiles int bool

definition PerformStep_init ::
  "'g FrontEngine \<Rightarrow> GameState \<Rightarrow> StepData \<Rightarrow> 'g World \<Rightarrow> error + 'g World" where
  "PerformStep_init F inState sd W0 =
     (let out1 = inState\<lparr>nHeight := nHeight inState + 1,
                         nDisasterHeight := nDisasterHeight inState,
                         hashBlock := newHash sd\<rparr>;
          out2 = (if dao_IntervalMonsterApocalypse out1 < MIN_GAMEROUND_DURATION
                  then out1\<lparr>dao_IntervalMonsterApocalypse := MIN_GAMEROUND_DURATION\<rparr> else out1);
          W1 = W0\<lparr>outState := out2,
                   stepResult := \<lparr>killedPlayers = {}, killedBy = {}, bounties = [], nTaxAmount = 0\<rparr>\<rparr>
      in seq (DungeonLevelCache F W1) (\<lambda>W. seq (Pass0_CacheDataForGame F W) (Pass1_DAO F)))"

definition PerformStep_front ::
  "'g FrontEngine \<Rightarrow> GameMap \<Rightarrow> GameState \<Rightarrow> StepData \<Rightarrow> 'g World \<Rightarrow> error + 'g front" where
  "PerformStep_front F M inState sd W0 =
     (if \<not> list_all (\<lambda>m. IsValid F m inState) (vMoves sd) then Inr (Rejected W0)
      else
        seq (PerformStep_init F inState sd W0) (\<lambda>W.
        if STATE_VERSION < dao_MinVersion (outState W) then Inr (Rejected W)
        else
          seq (foldE PayGameFee (vMoves sd) (outState W, 0)) (\<lambda>(st, moneyIn).
          seq (ApplyAttacks (HUNTERMSG_CACHE_MAX F) \<lparr>tiles = [], built = False\<rparr> st (vMoves sd) (huntermsg W))
            (\<lambda>(T, hm).
          let T' = (if ForkInEffect st FORK_LIFESTEAL then DefendMutualAttacks T else T) in
          seq (DrawLife M (Cache_min_version W) T' st (stepResult W)) (\<lambda>(attackedTiles, st', res').
          seq (KillSpawnArea F (W\<lparr>outState := st', stepResult := res', huntermsg := hm\<rparr>)) (\<lambda>W.
          seq (KillRangedAttacks F W) (\<lambda>W.
          seq (DecrementLife (outState W) (stepResult W)) (\<lambda>(st, res).
          seq (FinaliseKills F (W\<lparr>outState := st, stepResult := res\<rparr>)) (\<lambda>W.
          seq (if IsForkHeight (param (outState W)) FORK_LIFESTEAL (nHeight (outState W))
               then RemoveHeartedCharacters F W else Inr W) (\<lambda>W.
          seq (foldE (ApplyWaypoints F) (filter (\<lambda>m. \<not> IsSpawn m) (vMoves sd)) W) (\<lambda>W.
          seq (Pass2_Melee F W) (\<lambda>W.
          seq (PathFinding F (hashBlock inState) W) (\<lambda>W.
          seq (Pass3_PaymentAndHitscan F W) (\<lambda>W.
          seq (Pass4_Refund F W) (\<lambda>W.
          seq (UpdateCrownState (outState W)) (\<lambda>(st, respawn_crown).
          seq (Banking F (W\<lparr>outState := st\<rparr>)) (\<lambda>W.
          Inr (Reached W attackedTiles moneyIn respawn_crown))))))))))))))))))"

text \<open>\<^verbatim>\<open>CollectedBounty::UpdateAddress (state)\<close>.\<close>

definition UpdateAddress :: "GameState \<Rightarrow> CollectedBounty \<Rightarrow> CollectedBounty" where
  "UpdateAddress st b =
     (case map_of (players st) (fst (bounty_character b)) of
        None \<Rightarrow> b
      | Some pl \<Rightarrow> b\<lparr>bounty_address := address pl\<rparr>)"

text \<open>The sum \<open>moneyOut\<close> of the tax and the bounties of a step result.\<close>

definition moneyOut :: "StepResult \<Rightarrow> int" where
  "moneyOut res = nTaxAmount res + sum_list (map (\<lambda>b. nAmount (bounty_loot b)) (bounties res))"

text \<open>\<^verbatim>\<open>PerformStep\<close> after the test of the block hash, to its end.\<close>

definition PerformStep_back ::
  "'g BackEngine \<Rightarrow> GameMap \<Rightarrow> GameState \<Rightarrow> StepData \<Rightarrow> 'g World \<Rightarrow> CharactersOnTiles \<Rightarrow> int \<Rightarrow> bool
     \<Rightarrow> error + (bool \<times> 'g World)" where
  "PerformStep_back B M inState sd W attackedTiles moneyIn respawn_crown =
     (let rnd = seed B (hashBlock (outState W));
          (isDisaster, rnd) = CheckForDisaster (outState W) rnd
      in
        seq (if isDisaster
             then seq (ApplyDisaster (outState W) rnd)
                    (\<lambda>(st, rnd). if nHeight st \<noteq> nDisasterHeight st then Inl AssertionFailed
                                 else Inr (W\<lparr>outState := st\<rparr>, rnd))
             else Inr (W, rnd)) (\<lambda>(W, rnd).
        seq (if ForkInEffect (outState W) FORK_LIFESTEAL \<and> built attackedTiles
             then DistributeDrawnLife_built B attackedTiles rnd W else Inr (W, rnd)) (\<lambda>(W, rnd).
        seq (foldE (\<lambda>m (W, rnd). ApplySpawn B m rnd W) (filter IsSpawn (vMoves sd)) (W, rnd)) (\<lambda>(W, rnd).
        seq (foldE (ApplyCommon B) (vMoves sd) W) (\<lambda>W.
        let W = W\<lparr>stepResult := (stepResult W)\<lparr>bounties := map (UpdateAddress (outState W))
                                                              (bounties (stepResult W))\<rparr>\<rparr> in
        seq (DeadPlayersChat B inState W) (\<lambda>W.
        seq (DropTreasure M (nTreasureAmount sd) (outState W) rnd) (\<lambda>(st, rnd, nCrownBonus).
        seq (DivideLootAmongPlayers B (W\<lparr>outState := st\<rparr>)) (\<lambda>W.
        seq (CrownBonus B nCrownBonus W) (\<lambda>W.
        seq (DynamicCheckpoint B W) (\<lambda>W.
        seq (UpdateBanks M (outState W) rnd) (\<lambda>(st, rnd).
        seq (DropHeartPass B rnd (W\<lparr>outState := st\<rparr>)) (\<lambda>(W, rnd).
        seq (CollectHearts B rnd W) (\<lambda>(W, rnd).
        seq (CollectCrown B respawn_crown rnd W) (\<lambda>(W, rnd).
        let moneyBefore = GetCoinsOnMap inState + gameFund inState;
            moneyAfter = GetCoinsOnMap (outState W) + gameFund (outState W)
        in if moneyBefore + nTreasureAmount sd + moneyIn \<noteq> moneyAfter + moneyOut (stepResult W)
           then Inr (False, W)
           else Inr (True, W)))))))))))))))"

definition PerformStep ::
  "'g FrontEngine \<Rightarrow> 'g BackEngine \<Rightarrow> GameMap \<Rightarrow> GameState \<Rightarrow> StepData \<Rightarrow> 'g World
     \<Rightarrow> error + (bool \<times> 'g World)" where
  "PerformStep F B M inState sd W0 =
     seq (PerformStep_front F M inState sd W0) (\<lambda>fr.
       case fr of
         Rejected W \<Rightarrow> Inr (False, W)
       | Reached W attackedTiles moneyIn respawn_crown \<Rightarrow>
           if hashBlock (outState W) = 0 then Inr (True, W)
           else PerformStep_back B M inState sd W attackedTiles moneyIn respawn_crown)"

text \<open>The locked-coin deltas of a list of moves in the words of the specification: a spawn
  brings in the coins it locks, any other move the coins it locks beyond those the player
  had locked before it; \<open>L\<close> gives the locked coins of the players.\<close>

fun locked_coin_deltas :: "Move list \<Rightarrow> (PlayerID \<Rightarrow> int option) \<Rightarrow> int list" where
  "locked_coin_deltas [] L = []"
| "locked_coin_deltas (m # ms) L =
     (if IsSpawn m then newLocked m # locked_coin_deltas ms L
      else (newLocked m - the (L (player m))) # locked_coin_deltas ms (L(player m \<mapsto> newLocked m)))"

definition locked_of :: "GameState \<Rightarrow> PlayerID \<Rightarrow> int option" where
  "locked_of st p = map_option lockedCoins (map_of (players st) p)"

text \<open>No pass of \<^verbatim>\<open>state.cpp\<close> writes \<^verbatim>\<open>hashBlock\<close>, which \<^verbatim>\<open>PerformStep\<close> sets at its start.
  \<open>keeps_hash\<close> says so of a pass, \<open>front_keeps_hash\<close> of the passes of a front engine.\<close>

definition keeps_hash :: "'g pass \<Rightarrow> bool" where
  "keeps_hash p = (\<forall>W W'. p W = Inr W' \<longrightarrow> hashBlock (outState W') = hashBlock (outState W))"

definition front_keeps_hash :: "'g FrontEngine \<Rightarrow> bool" where
  "front_keeps_hash F =
     (keeps_hash (DungeonLevelCache F) \<and> keeps_hash (Pass0_CacheDataForGame F)
      \<and> keeps_hash (Pass1_DAO F) \<and> keeps_hash (KillSpawnArea F)
      \<and> keeps_hash (KillRangedAttacks F) \<and> keeps_hash (FinaliseKills F)
      \<and> keeps_hash (RemoveHeartedCharacters F) \<and> (\<forall>m. keeps_hash (ApplyWaypoints F m))
      \<and> keeps_hash (Pass2_Melee F) \<and> (\<forall>s. keeps_hash (PathFinding F s))
      \<and> keeps_hash (Pass3_PaymentAndHitscan F) \<and> keeps_hash (Pass4_Refund F))"

section \<open>Example inputs\<close>

text \<open>Merchant numbers used in the examples below.\<close>

definition example_merchants :: MerchConsts where
  "example_merchants = \<lparr>MERCH_ARMOR_BUFFCOAT = 12, MERCH_ARMOR_LINEN = 25, MERCH_ARMOR_SCALE = 26,
     MERCH_ARMOR_SPLINT = 14, MERCH_ARMOR_PLATE = 30, MERCH_STINKING_CLOUD = 9,
     MERCH_RING_WORD_RECALL = 17, MERCH_STAFF_FIREBALL = 35, MERCH_STAFF_REAPER = 36,
     MERCH_AMULET_LIFE_SAVING = 37, MERCH_RING_IMMORTALITY = 24, MERCH_WEAPON_ESTOC = 19,
     MERCH_WEAPON_SWORD = 29, MERCH_WEAPON_XBOW = 20, MERCH_WEAPON_XBOW3 = 21,
     MERCH_STAFF_LIGHTNING = 38, PRICE_RING_IMMORTALITY = 100\<rparr>"


text \<open>A network on which no fork is active at the heights of the examples, a map of
  \<open>502 \<times> 502\<close> tiles whose original spawn area is its border strip, and a world at height
  10 with the players \<open>a\<close> (colour 0) and \<open>b\<close> (colour 1), each with a general, on
  neighbouring tiles.\<close>

definition no_forks :: "Fork \<Rightarrow> int" where
  "no_forks f = 1000000"

definition example_map :: GameMap where
  "example_map = \<lparr>MAP_WIDTH = 502, MAP_HEIGHT = 502,
     IsOriginalSpawnArea = (\<lambda>x y. (x = 0 \<or> x = 501) \<and> (y < 15 \<or> y \<ge> 487)
                                  \<or> (y = 0 \<or> y = 501) \<and> (x < 15 \<or> x \<ge> 487)),
     walkableTiles = map (\<lambda>i. (i, 7)) [0..100],
     walkableTiles_ts_banks = map (\<lambda>i. (i, 7)) [0..100],
     HarvestAreas = [[(100, 100), (101, 100)], [(200, 200)]],
     HarvestPortions = [5, 4], CROWN_BONUS = 1, TOTAL_HARVEST = 10\<rparr>"

definition example_general :: "Coord \<Rightarrow> int \<Rightarrow> CharacterState" where
  "example_general c a = \<lparr>coord = c, loot = empty_CollectedLootInfo\<lparr>nAmount := a\<rparr>,
     stay_in_spawn_area = 0, ai_state2 = 0\<rparr>"

definition example_player :: "int \<Rightarrow> int \<Rightarrow> Coord \<Rightarrow> int \<Rightarrow> PlayerState" where
  "example_player col v c a = \<lparr>color = col, pvalue = v, lockedCoins = v, remainingLife = -1,
     address = [], characters = [(0, example_general c a)]\<rparr>"

definition example_state :: GameState where
  "example_state = \<lparr>param = no_forks, nHeight = 10, nDisasterHeight = -1, hashBlock = 7,
     players = [(''a'', example_player 0 1000 (5, 5) 250), (''b'', example_player 1 2000 (5, 6) 0)],
     gs_loot = [], hearts = {}, banks = [((0, 0), 0)], crownPos = (250, 248),
     crownHolder = ([], 0), gameFund = 0, dao_MinVersion = 2020500,
     dao_IntervalMonsterApocalypse = 2000, dao_DlevelMax = 0\<rparr>"

definition empty_StepResult :: StepResult where
  "empty_StepResult = \<lparr>killedPlayers = {}, killedBy = {}, bounties = [], nTaxAmount = 0\<rparr>"




definition empty_Huntermsg :: Huntermsg where
  "empty_Huntermsg = \<lparr>Huntermsg_idx_destruct = 0, Huntermsg_destruct = (\<lambda>i. ([], 0))\<rparr>"


text \<open>A generator whose raw outputs are \<open>123, 124, \<dots>\<close>, and the example world with player
  \<open>b\<close> poisoned and one block from death.\<close>

definition example_rng :: RandomGenerator where
  "example_rng = \<lparr>raw = (\<lambda>i. 123 + i), pos = 0\<rparr>"

definition poisoned_state :: GameState where
  "poisoned_state = example_state\<lparr>
     players := [(''a'', example_player 0 1000 (5, 5) 250),
                 (''b'', (example_player 1 2000 (5, 6) 0)\<lparr>remainingLife := 1\<rparr>)]\<rparr>"


text \<open>Passes that do nothing, for a step on which nothing happens but the payment of fees and
  the drop of the treasure: a front engine that accepts the moves of existing players and
  whose pass 0 notes the required version, and a back engine whose crown bonus goes to the
  game fund, as \<^verbatim>\<open>CrownBonus\<close> does while nobody holds the crown.\<close>

definition idle_front :: "unit FrontEngine" where
  "idle_front = \<lparr>IsValid = (\<lambda>m st. map_of (players st) (player m) \<noteq> None),
     HUNTERMSG_CACHE_MAX = 10, AI_STATE2_STASIS = (\<lambda>_. False), IsPlayerSpawnTile = (\<lambda>_. False),
     DungeonLevelCache = Inr,
     Pass0_CacheDataForGame = (\<lambda>W. Inr (W\<lparr>Cache_min_version := dao_MinVersion (outState W)\<rparr>)),
     Pass1_DAO = Inr, KillSpawnArea = Inr, KillRangedAttacks = Inr, FinaliseKills = Inr,
     RemoveHeartedCharacters = Inr, ApplyWaypoints = (\<lambda>_. Inr), Pass2_Melee = Inr,
     PathFinding = (\<lambda>_. Inr), Pass3_PaymentAndHitscan = Inr, Pass4_Refund = Inr\<rparr>"

definition idle_back :: "unit BackEngine" where
  "idle_back = \<lparr>seed = (\<lambda>_. example_rng),
     DistributeDrawnLife_built = (\<lambda>_ rnd W. Inr (W, rnd)),
     ApplySpawn = (\<lambda>_ rnd W. Inr (W, rnd)), ApplyCommon = (\<lambda>_. Inr),
     DeadPlayersChat = (\<lambda>_. Inr), DivideLootAmongPlayers = Inr,
     CrownBonus = (\<lambda>n W. Inr (W\<lparr>outState := (outState W)\<lparr>gameFund := gameFund (outState W) + n\<rparr>\<rparr>)),
     DynamicCheckpoint = Inr, DropHeartPass = (\<lambda>rnd W. Inr (W, rnd)),
     CollectHearts = (\<lambda>rnd W. Inr (W, rnd)), CollectCrown = (\<lambda>_ rnd W. Inr (W, rnd))\<rparr>"

text \<open>The output objects before a step; a block with the hash 9, a treasure of 100 and the
  move by which \<open>a\<close> raises its locked coins to 1005; the same block with a null hash; and
  a world that asks for a version above \<open>STATE_VERSION\<close>.\<close>

definition example_world :: "unit World" where
  "example_world = \<lparr>outState = example_state, stepResult = empty_StepResult,
     Cache_min_version = 0, huntermsg = empty_Huntermsg, other = ()\<rparr>"

definition fee_move :: Move where
  "fee_move = \<lparr>player = ''a'', destruct = [], newLocked = 1005, IsSpawn = False\<rparr>"

definition example_step :: StepData where
  "example_step = \<lparr>newHash = 9, vMoves = [fee_move], nTreasureAmount = 100\<rparr>"

definition null_step :: StepData where
  "null_step = example_step\<lparr>newHash := 0\<rparr>"

definition obsolete_state :: GameState where
  "obsolete_state = example_state\<lparr>dao_MinVersion := 2020700\<rparr>"

section \<open>Theorems\<close>

subsection \<open>Merchant offers\<close>

lemma cdiv_nonneg: "0 \<le> a \<Longrightarrow> 0 < b \<Longrightarrow> cdiv a b = a div b"
  by (simp add: cdiv_def)

lemma price_chain_nonneg:
  "0 \<le> (p::int) \<Longrightarrow>
   0 \<le> (if c1 then 50 else if c2 then 35 else if c3 then 80 else if c4 then 80
        else if c5 then 90 else if c6 then 20 else if c7 then 30 else if c8 then 20
        else if c9 then 20 else if c10 then 20 else if c11 then p else if c12 then 50
        else if c13 then 15 else if c14 then 30 else if c15 then 60 else if c16 then 90 else 0)"
  by simp

lemma Rpg_MOf_base_nonneg: "0 \<le> PRICE_RING_IMMORTALITY K \<Longrightarrow> 0 \<le> Rpg_MOf_base K m"
  unfolding Rpg_MOf_base_def by (rule price_chain_nonneg)

lemma tenth: "0 \<le> (b::int) \<Longrightarrow> 0 \<le> k \<Longrightarrow> cdiv (b * k) 10 = (b * (k * 10)) div 100"
proof -
  assume b: "0 \<le> b" and k: "0 \<le> k"
  have "(b * (k * 10)) div 100 = ((b * k) * 10) div (10 * 10)" by (simp add: mult.assoc)
  also have "\<dots> = (b * k) div 10" by (simp only: div_mult_mult2 [of 10] simp_thms zero_neq_numeral)
  finally show ?thesis using b k by (simp add: cdiv_nonneg)
qed

lemma ladder_price_chain:
  "ladder_price b d =
    (if d > 10000 then b * 10 div 100 else if d > 5000 then b * 30 div 100
     else if d > 2000 then b * 50 div 100 else if d > 1000 then b * 60 div 100
     else if d > 500 then b * 70 div 100 else if d > 200 then b * 80 div 100
     else if d > 100 then b * 90 div 100 else b)"
  unfolding ladder_price_def ladder_percent_def
  by (simp only: if_distrib [of "\<lambda>p. b * p div 100"] mult_1_right
         nonzero_mult_div_cancel_right [of 100 b] simp_thms zero_neq_numeral)

lemma fst_Rpg_getMerchantOffer:
  "fst (Rpg_getMerchantOffer K last_sale m h) =
    (if h \<le> 0 \<or> last_sale m \<le> 0 then Rpg_MOf_base K m
     else if h - last_sale m > 10000 then cdiv (Rpg_MOf_base K m) 10
     else if h - last_sale m > 5000 then cdiv (Rpg_MOf_base K m * 3) 10
     else if h - last_sale m > 2000 then cdiv (Rpg_MOf_base K m * 5) 10
     else if h - last_sale m > 1000 then cdiv (Rpg_MOf_base K m * 6) 10
     else if h - last_sale m > 500 then cdiv (Rpg_MOf_base K m * 7) 10
     else if h - last_sale m > 200 then cdiv (Rpg_MOf_base K m * 8) 10
     else if h - last_sale m > 100 then cdiv (Rpg_MOf_base K m * 9) 10
     else Rpg_MOf_base K m)"
  unfolding Rpg_getMerchantOffer_def Let_def by simp

text \<open>
  Claim C9, as the code has it. The ladder of the specification is applied only when the
  height is positive and the merchant has a recorded sale (\<open>last_sale m > 0\<close>); otherwise
  the undiscounted base price is charged. A purchase whose buyer has less loot than the
  price leaves the buyer as it was.
\<close>

theorem Rpg_getMerchantOffer_ladder:
  assumes "0 \<le> PRICE_RING_IMMORTALITY K"
  shows "fst (Rpg_getMerchantOffer K last_sale m h) =
           (if 0 < h \<and> 0 < last_sale m
            then ladder_price (Rpg_MOf_base K m) (h - last_sale m)
            else Rpg_MOf_base K m)
         \<and> (loot_nAmount b < fst (Rpg_getMerchantOffer K last_sale m h) * COIN \<longrightarrow>
              AI_BUY_FROM_MERCHANT K last_sale ex pay h b I m = b)"
proof -
  define p where "p = Rpg_MOf_base K m"
  have nn: "0 \<le> p" unfolding p_def using assms by (rule Rpg_MOf_base_nonneg)
  have s1: "cdiv p 10 = p * 10 div 100" using tenth [OF nn, of 1] by simp
  have s3: "cdiv (p * 3) 10 = p * 30 div 100" using tenth [OF nn, of 3] by simp
  have s5: "cdiv (p * 5) 10 = p * 50 div 100" using tenth [OF nn, of 5] by simp
  have s6: "cdiv (p * 6) 10 = p * 60 div 100" using tenth [OF nn, of 6] by simp
  have s7: "cdiv (p * 7) 10 = p * 70 div 100" using tenth [OF nn, of 7] by simp
  have s8: "cdiv (p * 8) 10 = p * 80 div 100" using tenth [OF nn, of 8] by simp
  have s9: "cdiv (p * 9) 10 = p * 90 div 100" using tenth [OF nn, of 9] by simp
  have price: "fst (Rpg_getMerchantOffer K last_sale m h) =
           (if 0 < h \<and> 0 < last_sale m
            then ladder_price (Rpg_MOf_base K m) (h - last_sale m)
            else Rpg_MOf_base K m)"
  proof (cases "h \<le> 0 \<or> last_sale m \<le> 0")
    case True
    then have "fst (Rpg_getMerchantOffer K last_sale m h) = Rpg_MOf_base K m"
      by (simp only: fst_Rpg_getMerchantOffer if_True)
    moreover from True have "\<not> (0 < h \<and> 0 < last_sale m)" by linarith
    ultimately show ?thesis by (simp only: if_False)
  next
    case False
    then have g: "0 < h \<and> 0 < last_sale m" by linarith
    have "fst (Rpg_getMerchantOffer K last_sale m h) = ladder_price p (h - last_sale m)"
      using False
      by (simp only: fst_Rpg_getMerchantOffer if_False p_def [symmetric] s1 s3 s5 s6 s7 s8 s9
          ladder_price_chain)
    with g show ?thesis by (simp only: if_True p_def simp_thms)
  qed
  have buy: "loot_nAmount b < fst (Rpg_getMerchantOffer K last_sale m h) * COIN \<longrightarrow>
              AI_BUY_FROM_MERCHANT K last_sale ex pay h b I m = b"
    by (simp add: AI_BUY_FROM_MERCHANT_def Let_def)
  from price buy show ?thesis by (rule conjI)
qed

theorem Rpg_getMerchantOffer_ladder_witness:
  "fst (Rpg_getMerchantOffer example_merchants (\<lambda>_. 1000) 12 1150) = 45
   \<and> AI_BUY_FROM_MERCHANT example_merchants (\<lambda>_. 1000) (\<lambda>_. True) True 1150
        \<lparr>slot = 0, loot_nAmount = 44 * COIN, Merchant_sats_received = (\<lambda>_. 0)\<rparr> 3 12
      = \<lparr>slot = 0, loot_nAmount = 44 * COIN, Merchant_sats_received = (\<lambda>_. 0)\<rparr>"
proof -
  have p: "0 \<le> PRICE_RING_IMMORTALITY example_merchants"
    by (simp add: example_merchants_def)
  have b: "Rpg_MOf_base example_merchants 12 = 50"
    by (simp add: Rpg_MOf_base_def example_merchants_def)
  have l: "ladder_price 50 (1150 - 1000) = 45"
    by (simp add: ladder_price_def ladder_percent_def)
  note t = Rpg_getMerchantOffer_ladder [OF p, where last_sale = "\<lambda>_. 1000" and m = 12
        and h = 1150 and ex = "\<lambda>_. True" and pay = True and I = 3
        and b = "\<lparr>slot = 0, loot_nAmount = 44 * COIN, Merchant_sats_received = (\<lambda>_. 0)\<rparr>"]
  have e: "fst (Rpg_getMerchantOffer example_merchants (\<lambda>_. 1000) 12 1150) = 45"
    using t b l by simp
  show ?thesis using t e by (simp add: COIN_def)
qed

text \<open>
  Claim C9 as written fails for a merchant that has never sold: at height 20000 with
  \<open>last_sale = 0\<close> the ladder would charge 10 percent of the base price 50 of the buff
  coat, the code charges the full 50.
\<close>

theorem Rpg_getMerchantOffer_counterexample:
  "fst (Rpg_getMerchantOffer example_merchants (\<lambda>_. 0) 12 20000) = 50
   \<and> ladder_price (Rpg_MOf_base example_merchants 12) (20000 - 0) = 5"
  by (simp add: Rpg_getMerchantOffer_def Rpg_MOf_base_def example_merchants_def
      ladder_price_def ladder_percent_def)

subsection \<open>Collecting loot\<close>

lemma nAmount_Collect: "nAmount (Collect l n h) = nAmount l + nAmount n"
  by (simp add: Collect_def)



text \<open>Loot of a negative amount fails the first assertion of \<open>CollectLoot\<close>.\<close>

lemma CollectLoot_negative:
  "nAmount newLoot < 0 \<Longrightarrow> CollectLoot ch newLoot h cap = Inl AssertionFailed"
  by (auto simp: CollectLoot_def Let_def nAmount_Collect)

subsection \<open>The death tax\<close>

lemma DropCoins_cases:
  "- 1 \<le> remainingLife pc \<Longrightarrow> DropCoins info st pc = Inr True \<or> DropCoins info st pc = Inr False"
  by (auto simp: DropCoins_def)

text \<open>
  Claim C10. When its assertions hold, \<open>HandleKilledLoot\<close> returns; the amount it drops is
  the loot of the character, plus the value of the player for a general that is not
  refunded; for a cause other than \<open>KILLED_SPAWN\<close>, and while the cached minimum version
  is below 2020700, a tax of that amount divided by 25 is added to the tax of the step and
  taken off the amount, which goes to the game fund or onto the map; otherwise no tax is
  taken.
\<close>

theorem HandleKilledLoot_death_tax:
  fixes cmv :: int and step :: StepResult and M :: GameMap
  assumes pl: "map_of (players st) pId = Some pc"
      and ch: "map_of (characters pc) chInd = Some ch"
      and val: "0 \<le> pvalue pc"
      and ls: "chInd = 0 \<and> \<not> CanRefund info st pc \<and> ForkInEffect st FORK_LIFESTEAL \<longrightarrow> pvalue pc = 0"
      and life: "- 1 \<le> remainingLife pc"
  defines "amount \<equiv> nAmount (loot ch) + (if chInd = 0 \<and> \<not> CanRefund info st pc then pvalue pc else 0)"
  defines "tax \<equiv> (if reason info \<noteq> KILLED_SPAWN \<and> cmv < 2020700 then cdiv amount 25 else 0)"
  shows "\<exists>st' step'. HandleKilledLoot M cmv st pId chInd info step = Inr (st', step')
           \<and> nTaxAmount step' = nTaxAmount step + tax
           \<and> st' = (if DropCoins info st pc = Inr True
                   then AddLoot st (if ForkInEffect st FORK_LIFESTEAL then coord ch
                                    else PushCoordOutOfSpawnArea M (coord ch)) (amount - tax)
                   else st\<lparr>gameFund := gameFund st + (amount - tax)\<rparr>)"
proof -
  from DropCoins_cases [OF life, of info st]
  show ?thesis
  proof
    assume "DropCoins info st pc = Inr True"
    then show ?thesis
      using pl ch val ls unfolding amount_def tax_def
      by (auto simp: HandleKilledLoot_def Let_def HasDeathTax_def)
  next
    assume "DropCoins info st pc = Inr False"
    then show ?thesis
      using pl ch val ls unfolding amount_def tax_def
      by (auto simp: HandleKilledLoot_def Let_def HasDeathTax_def)
  qed
qed


theorem HandleKilledLoot_death_tax_witness:
  "HandleKilledLoot example_map 2020500 example_state ''a'' 0
      \<lparr>reason = KILLED_DESTRUCT, killer = (''b'', 0)\<rparr> empty_StepResult
   = Inr (AddLoot example_state (5, 5) 1200, empty_StepResult\<lparr>nTaxAmount := 50\<rparr>)"
proof -
  have pl: "map_of (players example_state) ''a'' = Some (example_player 0 1000 (5, 5) 250)"
    by (simp add: example_state_def)
  have ch: "map_of (characters (example_player 0 1000 (5, 5) 250)) 0 = Some (example_general (5, 5) 250)"
    by (simp add: example_player_def)
  have val: "0 \<le> pvalue (example_player 0 1000 (5, 5) 250)"
    by (simp add: example_player_def)
  have nf: "\<not> ForkInEffect example_state f" for f
    by (simp add: ForkInEffect_def rules_ForkInEffect_def example_state_def no_forks_def)
  have ls: "(0::int) = 0 \<and> \<not> CanRefund \<lparr>reason = KILLED_DESTRUCT, killer = (''b'', 0)\<rparr> example_state
                 (example_player 0 1000 (5, 5) 250)
             \<and> ForkInEffect example_state FORK_LIFESTEAL
           \<longrightarrow> pvalue (example_player 0 1000 (5, 5) 250) = 0"
    by (simp add: nf)
  have life: "- 1 \<le> remainingLife (example_player 0 1000 (5, 5) 250)"
    by (simp add: example_player_def)
  show ?thesis
    using HandleKilledLoot_death_tax [OF pl ch val ls life, where cmv = 2020500 and step = empty_StepResult and M = example_map]
    by (simp add: HandleKilledLoot_def Let_def pl ch nf CanRefund_def DropCoins_def HasDeathTax_def
        cdiv_def example_player_def example_general_def empty_CollectedLootInfo_def
        PushCoordOutOfSpawnArea_def example_map_def empty_StepResult_def)
qed

subsection \<open>Drawing life\<close>

lemma map_of_map_assign:
  "map_of (map_assign k v m) k' =
     (if k' = k then (case map_of m k of None \<Rightarrow> None | Some u \<Rightarrow> Some v) else map_of m k')"
  by (induction m) (auto simp: map_assign_def)













subsection \<open>Applying attacks\<close>






subsection \<open>Disaster and poison\<close>

lemma GetIntRnd2_range:
  assumes "lo \<le> hi" and "GetIntRnd2 rng lo hi = (r, rng')"
  shows "lo \<le> r \<and> r \<le> hi"
proof -
  have n: "0 < nat (hi - lo + 1)" using assms(1) by simp
  have "int (raw rng (pos rng) mod nat (hi - lo + 1)) < int (nat (hi - lo + 1))"
    using n by (simp only: of_nat_less_iff mod_less_divisor)
  then have "int (raw rng (pos rng) mod nat (hi - lo + 1)) \<le> hi - lo"
    using assms(1) by simp
  moreover have "0 \<le> int (raw rng (pos rng) mod nat (hi - lo + 1))" by simp
  ultimately show ?thesis
    using assms(2) by (auto simp: GetIntRnd2_def GetIntRnd_def)
qed

lemma ApplyDisaster_players_ok:
  "\<forall>(pid, p) \<in> set ps. remainingLife p = -1 \<Longrightarrow>
   \<exists>ps' rng'. ApplyDisaster_players ps rng = Inr (ps', rng')
     \<and> list_all2 (\<lambda>(pid, p) (pid', p'). pid' = pid
          \<and> (\<exists>r. 1 \<le> r \<and> r \<le> 50 \<and> p' = p\<lparr>remainingLife := r\<rparr>)) ps ps'"
proof (induction ps arbitrary: rng)
  case Nil
  then show ?case by simp
next
  case (Cons x ps)
  obtain pid p where x: "x = (pid, p)" by (cases x)
  obtain r rng1 where g: "GetIntRnd2 rng POISON_MIN_LIFE POISON_MAX_LIFE = (r, rng1)"
    by (cases "GetIntRnd2 rng POISON_MIN_LIFE POISON_MAX_LIFE")
  have rr: "1 \<le> r \<and> r \<le> 50"
    using GetIntRnd2_range [OF _ g] by (simp add: POISON_MIN_LIFE_def POISON_MAX_LIFE_def)
  from Cons.prems have "\<forall>(pid, p) \<in> set ps. remainingLife p = -1" by simp
  from Cons.IH [OF this, of rng1] obtain ps' rng' where
    ih: "ApplyDisaster_players ps rng1 = Inr (ps', rng')"
    and l: "list_all2 (\<lambda>(pid, p) (pid', p'). pid' = pid
          \<and> (\<exists>r. 1 \<le> r \<and> r \<le> 50 \<and> p' = p\<lparr>remainingLife := r\<rparr>)) ps ps'"
    by blast
  from Cons.prems x have u: "remainingLife p = -1" by simp
  show ?case
    using x u g ih l rr by auto
qed

lemma DecrementLife_players_ok:
  "\<forall>(pid, p) \<in> set ps. remainingLife p = -1 \<or> 0 < remainingLife p \<Longrightarrow>
   \<exists>step'. DecrementLife_players ps step =
       Inr (map (\<lambda>(pid, p). (pid, if remainingLife p = -1 then p
                                   else p\<lparr>remainingLife := remainingLife p - 1\<rparr>)) ps, step')
     \<and> killedPlayers step' = killedPlayers step \<union> {pid. \<exists>p. (pid, p) \<in> set ps \<and> remainingLife p = 1}
     \<and> killedBy step' = killedBy step
          \<union> {(pid, \<lparr>reason = KILLED_POISON, killer = ([], 0)\<rparr>) | pid. \<exists>p. (pid, p) \<in> set ps \<and> remainingLife p = 1}
     \<and> bounties step' = bounties step \<and> nTaxAmount step' = nTaxAmount step"
proof (induction ps arbitrary: step)
  case Nil
  then show ?case by simp
next
  case (Cons x ps)
  obtain pid p where x: "x = (pid, p)" by (cases x)
  from Cons.prems have rest: "\<forall>(pid, p) \<in> set ps. remainingLife p = -1 \<or> 0 < remainingLife p"
    by simp
  from Cons.prems x have me: "remainingLife p = -1 \<or> 0 < remainingLife p" by simp
  define step1 where "step1 = (if remainingLife p = 1
                     then KillPlayer pid \<lparr>reason = KILLED_POISON, killer = ([], 0)\<rparr> step
                     else step)"
  from Cons.IH [OF rest, of "if remainingLife p = -1 then step else step1"]
  obtain step' where ih: "DecrementLife_players ps (if remainingLife p = -1 then step else step1) =
       Inr (map (\<lambda>(pid, p). (pid, if remainingLife p = -1 then p
                                   else p\<lparr>remainingLife := remainingLife p - 1\<rparr>)) ps, step')"
     and k: "killedPlayers step' = killedPlayers (if remainingLife p = -1 then step else step1)
               \<union> {pid. \<exists>p. (pid, p) \<in> set ps \<and> remainingLife p = 1}"
     and kb: "killedBy step' = killedBy (if remainingLife p = -1 then step else step1)
          \<union> {(pid, \<lparr>reason = KILLED_POISON, killer = ([], 0)\<rparr>) | pid. \<exists>p. (pid, p) \<in> set ps \<and> remainingLife p = 1}"
     and o: "bounties step' = bounties (if remainingLife p = -1 then step else step1)"
            "nTaxAmount step' = nTaxAmount (if remainingLife p = -1 then step else step1)"
    by blast
  show ?case
  proof (cases "remainingLife p = -1")
    case True
    then show ?thesis using x ih k kb o by auto
  next
    case False
    with me have pos: "0 < remainingLife p" by simp
    show ?thesis
    proof (cases "remainingLife p = 1")
      case True
      then show ?thesis
        using x ih k kb o False pos unfolding step1_def
        by (auto simp: Let_def KillPlayer_def)
    next
      case n1: False
      then show ?thesis
        using x ih k kb o False pos unfolding step1_def
        by (auto simp: Let_def KillPlayer_def)
    qed
  qed
qed


text \<open>
  Claim C8. When no player is poisoned, as \<open>ApplyDisaster\<close> asserts, it returns a state in
  which every player has a remaining life between 1 and 50 and is otherwise unchanged, the
  hearts are cleared if the less-hearts fork is in effect, and the disaster height is the
  height. When every player is unpoisoned or has a positive remaining life, as
  \<open>DecrementLife\<close> asserts, it leaves the unpoisoned as they are, takes one off the
  remaining life of the others, and records as killed by poison exactly the players
  whose remaining life was one.
\<close>

theorem disaster_and_poison:
  fixes rng :: RandomGenerator and step :: StepResult
  shows "((\<forall>(pid, p) \<in> set (players st). remainingLife p = -1) \<longrightarrow>
            (\<exists>st' rng'. ApplyDisaster st rng = Inr (st', rng')
               \<and> list_all2 (\<lambda>(pid, p) (pid', p'). pid' = pid
                     \<and> (\<exists>r. 1 \<le> r \<and> r \<le> 50 \<and> p' = p\<lparr>remainingLife := r\<rparr>))
                   (players st) (players st')
               \<and> hearts st' = (if ForkInEffect st FORK_LESSHEARTS then {} else hearts st)
               \<and> nDisasterHeight st' = nHeight st))
       \<and> ((\<forall>(pid, p) \<in> set (players st). remainingLife p = -1 \<or> 0 < remainingLife p) \<longrightarrow>
            (\<exists>step'. DecrementLife st step =
                Inr (st\<lparr>players := map (\<lambda>(pid, p). (pid, if remainingLife p = -1 then p
                                  else p\<lparr>remainingLife := remainingLife p - 1\<rparr>)) (players st)\<rparr>, step')
               \<and> killedPlayers step' = killedPlayers step
                    \<union> {pid. \<exists>p. (pid, p) \<in> set (players st) \<and> remainingLife p = 1}
               \<and> killedBy step' = killedBy step
                    \<union> {(pid, \<lparr>reason = KILLED_POISON, killer = ([], 0)\<rparr>) | pid.
                         \<exists>p. (pid, p) \<in> set (players st) \<and> remainingLife p = 1}))"
proof (intro conjI impI)
  assume "\<forall>(pid, p) \<in> set (players st). remainingLife p = -1"
  from ApplyDisaster_players_ok [OF this, of rng]
  show "\<exists>st' rng'. ApplyDisaster st rng = Inr (st', rng')
               \<and> list_all2 (\<lambda>(pid, p) (pid', p'). pid' = pid
                     \<and> (\<exists>r. 1 \<le> r \<and> r \<le> 50 \<and> p' = p\<lparr>remainingLife := r\<rparr>))
                   (players st) (players st')
               \<and> hearts st' = (if ForkInEffect st FORK_LESSHEARTS then {} else hearts st)
               \<and> nDisasterHeight st' = nHeight st"
    by (auto simp: ApplyDisaster_def)
next
  assume "\<forall>(pid, p) \<in> set (players st). remainingLife p = -1 \<or> 0 < remainingLife p"
  from DecrementLife_players_ok [OF this, of step]
  show "\<exists>step'. DecrementLife st step =
                Inr (st\<lparr>players := map (\<lambda>(pid, p). (pid, if remainingLife p = -1 then p
                                  else p\<lparr>remainingLife := remainingLife p - 1\<rparr>)) (players st)\<rparr>, step')
               \<and> killedPlayers step' = killedPlayers step
                    \<union> {pid. \<exists>p. (pid, p) \<in> set (players st) \<and> remainingLife p = 1}
               \<and> killedBy step' = killedBy step
                    \<union> {(pid, \<lparr>reason = KILLED_POISON, killer = ([], 0)\<rparr>) | pid.
                         \<exists>p. (pid, p) \<in> set (players st) \<and> remainingLife p = 1}"
    by (auto simp: DecrementLife_def)
qed

theorem disaster_and_poison_witness:
  "ApplyDisaster example_state example_rng =
     Inr (example_state\<lparr>players := [(''a'', (example_player 0 1000 (5, 5) 250)\<lparr>remainingLife := 24\<rparr>),
                                   (''b'', (example_player 1 2000 (5, 6) 0)\<lparr>remainingLife := 25\<rparr>)],
                         nDisasterHeight := 10\<rparr>,
          example_rng\<lparr>pos := 2\<rparr>)
   \<and> DecrementLife poisoned_state empty_StepResult =
     Inr (poisoned_state\<lparr>players := [(''a'', example_player 0 1000 (5, 5) 250),
                                    (''b'', (example_player 1 2000 (5, 6) 0)\<lparr>remainingLife := 0\<rparr>)]\<rparr>,
          empty_StepResult\<lparr>killedPlayers := {''b''},
             killedBy := {(''b'', \<lparr>reason = KILLED_POISON, killer = ([], 0)\<rparr>)}\<rparr>)"
proof -
  have h1: "\<forall>(pid, p) \<in> set (players example_state). remainingLife p = -1"
    by (simp add: example_state_def example_player_def)
  have h2: "\<forall>(pid, p) \<in> set (players poisoned_state). remainingLife p = -1 \<or> 0 < remainingLife p"
    by (simp add: poisoned_state_def example_player_def)
  have a: "ApplyDisaster example_state example_rng =
     Inr (example_state\<lparr>players := [(''a'', (example_player 0 1000 (5, 5) 250)\<lparr>remainingLife := 24\<rparr>),
                                   (''b'', (example_player 1 2000 (5, 6) 0)\<lparr>remainingLife := 25\<rparr>)],
                         nDisasterHeight := 10\<rparr>,
          example_rng\<lparr>pos := 2\<rparr>)"
    using disaster_and_poison [of example_state example_rng empty_StepResult] h1
    by (simp add: ApplyDisaster_def example_state_def example_player_def example_rng_def
        GetIntRnd2_def GetIntRnd_def POISON_MIN_LIFE_def POISON_MAX_LIFE_def
        ForkInEffect_def rules_ForkInEffect_def no_forks_def)
  have b: "DecrementLife poisoned_state empty_StepResult =
     Inr (poisoned_state\<lparr>players := [(''a'', example_player 0 1000 (5, 5) 250),
                                    (''b'', (example_player 1 2000 (5, 6) 0)\<lparr>remainingLife := 0\<rparr>)]\<rparr>,
          empty_StepResult\<lparr>killedPlayers := {''b''},
             killedBy := {(''b'', \<lparr>reason = KILLED_POISON, killer = ([], 0)\<rparr>)}\<rparr>)"
    using disaster_and_poison [of poisoned_state example_rng empty_StepResult] h2
    by (simp add: DecrementLife_def poisoned_state_def example_player_def KillPlayer_def
        empty_StepResult_def)
  from a b show ?thesis by (rule conjI)
qed


subsection \<open>Dropping the treasure\<close>









text \<open>On every map with at least two areas of a positive portion the shares of a treasure
  of one unit are all zero.\<close>

lemma treasure_of_one:
  assumes "\<forall>p \<in> set (HarvestPortions M). 0 \<le> p \<and> p < TOTAL_HARVEST M"
      and "0 \<le> CROWN_BONUS M" and "CROWN_BONUS M < TOTAL_HARVEST M"
  shows "treasure_sum M 1 = 0"
proof -
  have "map (treasure_share M 1) (HarvestPortions M) = map (\<lambda>p. 0) (HarvestPortions M)"
    using assms(1) by (intro map_cong) (auto simp: treasure_share_def)
  then have "sum_list (map (treasure_share M 1) (HarvestPortions M)) = sum_list (map (\<lambda>p. 0) (HarvestPortions M))"
    by (simp only:)
  then have "sum_list (map (treasure_share M 1) (HarvestPortions M)) = 0" by simp
  moreover have "treasure_share M 1 (CROWN_BONUS M) = 0"
    using assms(2,3) by (simp add: treasure_share_def)
  ultimately show ?thesis by (simp add: treasure_sum_def)
qed


subsection \<open>Dynamic banks\<close>

















subsection \<open>The step function\<close>

lemma seq_Inr_iff: "seq m f = Inr y \<longleftrightarrow> (\<exists>x. m = Inr x \<and> f x = Inr y)"
  by (cases m) (simp_all add: seq_def)

lemma seq_Inr: "m = Inr x \<Longrightarrow> seq m f = f x"
  by (simp add: seq_def)

lemma foldE_invariant:
  assumes "\<And>x a b. f x a = Inr b \<Longrightarrow> P a \<Longrightarrow> P b"
  shows "foldE f xs a = Inr b \<Longrightarrow> P a \<Longrightarrow> P b"
proof (induction xs arbitrary: a)
  case Nil
  then show ?case by simp
next
  case (Cons x xs)
  from Cons.prems(1) obtain a' where s: "f x a = Inr a'" and r: "foldE f xs a' = Inr b"
    by (auto simp: seq_Inr_iff)
  from assms [OF s Cons.prems(2)] have "P a'" .
  with Cons.IH [OF r] show ?case .
qed

lemma PayGameFee_hash:
  "PayGameFee m a = Inr b \<Longrightarrow> hashBlock (fst b) = hashBlock (fst a)"
  by (auto simp: PayGameFee_def Let_def split: if_splits option.splits)

lemma PayGameFees_hash:
  assumes "foldE PayGameFee ms (st, mi) = Inr (st', mi')"
  shows "hashBlock st' = hashBlock st"
proof -
  have "hashBlock (fst (st', mi')) = hashBlock st"
    by (rule foldE_invariant [where P = "\<lambda>a. hashBlock (fst a) = hashBlock st", OF _ assms])
       (auto dest: PayGameFee_hash)
  then show ?thesis by simp
qed

lemma PayGameFee_moneyIn:
  "PayGameFee m (st, acc) = Inr (st', acc') \<Longrightarrow>
     acc' = acc + hd (locked_coin_deltas [m] (locked_of st))
     \<and> locked_of st' = (if IsSpawn m then locked_of st else (locked_of st)(player m \<mapsto> newLocked m))"
  by (auto simp: PayGameFee_def Let_def locked_of_def map_of_map_assign fun_eq_iff
      split: if_splits option.splits)

lemma PayGameFees_moneyIn:
  "foldE PayGameFee ms (st, acc) = Inr (st', acc') \<Longrightarrow>
     acc' = acc + sum_list (locked_coin_deltas ms (locked_of st))"
proof (induction ms arbitrary: st acc)
  case Nil
  then show ?case by simp
next
  case (Cons m ms)
  from Cons.prems obtain st1 acc1 where s: "PayGameFee m (st, acc) = Inr (st1, acc1)"
    and r: "foldE PayGameFee ms (st1, acc1) = Inr (st', acc')"
    by (auto simp: seq_Inr_iff)
  from PayGameFee_moneyIn [OF s] have a1: "acc1 = acc + hd (locked_coin_deltas [m] (locked_of st))"
    and l1: "locked_of st1 = (if IsSpawn m then locked_of st else (locked_of st)(player m \<mapsto> newLocked m))"
    by auto
  from Cons.IH [OF r] have "acc' = acc1 + sum_list (locked_coin_deltas ms (locked_of st1))" .
  with a1 l1 show ?case by simp
qed

lemma keeps_hashD: "keeps_hash p \<Longrightarrow> p W = Inr W' \<Longrightarrow> hashBlock (outState W') = hashBlock (outState W)"
  by (simp add: keeps_hash_def)

lemma foldE_keeps_hash:
  assumes "\<forall>m. keeps_hash (f m)" and "foldE f ms W = Inr W'"
  shows "hashBlock (outState W') = hashBlock (outState W)"
proof (rule foldE_invariant [where P = "\<lambda>a. hashBlock (outState a) = hashBlock (outState W)", OF _ assms(2)])
  fix x a b assume "f x a = Inr b" and h: "hashBlock (outState a) = hashBlock (outState W)"
  moreover from assms(1) have "keeps_hash (f x)" by simp
  ultimately have "hashBlock (outState b) = hashBlock (outState a)" by (simp add: keeps_hashD)
  with h show "hashBlock (outState b) = hashBlock (outState W)" by simp
qed simp

lemma DecrementLife_hash:
  "DecrementLife st res = Inr (st', res') \<Longrightarrow> hashBlock st' = hashBlock st"
  by (auto simp: DecrementLife_def split: sum.splits)

lemma UpdateCrownState_hash:
  "UpdateCrownState st = Inr (st', rc) \<Longrightarrow> hashBlock st' = hashBlock st"
  by (auto simp: UpdateCrownState_def seq_Inr_iff split: if_splits option.splits)

lemma Banking_hash: "keeps_hash (Banking F)"
  by (auto simp: keeps_hash_def Banking_def seq_Inr_iff)

lemma ApplyAttacks_fresh:
  "ApplyAttacks cmax T st ms hm = Inr (T', hm') \<Longrightarrow> T' = T"
  by (auto simp: ApplyAttacks_def split: sum.splits)

lemma PerformStep_init_hash:
  assumes "front_keeps_hash F" and "PerformStep_init F inState sd W0 = Inr W"
  shows "hashBlock (outState W) = newHash sd"
proof -
  from assms(1) have k: "keeps_hash (DungeonLevelCache F)" "keeps_hash (Pass0_CacheDataForGame F)"
    "keeps_hash (Pass1_DAO F)" by (simp_all add: front_keeps_hash_def)
  from assms(2) show ?thesis
    by (auto simp: PerformStep_init_def Let_def seq_Inr_iff dest!: k [THEN keeps_hashD])
qed


lemma DrawLife_unbuilt: "\<not> built T \<Longrightarrow> DrawLife M cmv T st res = Inr (T, st, res)"
  by (simp add: DrawLife_def)

lemma DefendMutualAttacks_unbuilt: "\<not> built T \<Longrightarrow> DefendMutualAttacks T = T"
  by (simp add: DefendMutualAttacks_def)

lemma PerformStep_front_Reached:
  assumes kh: "front_keeps_hash F"
      and fr: "PerformStep_front F M inState sd W0 = Inr (Reached W T mi rc)"
  shows "list_all (\<lambda>m. IsValid F m inState) (vMoves sd)
     \<and> (\<exists>W1. PerformStep_init F inState sd W0 = Inr W1
            \<and> \<not> STATE_VERSION < dao_MinVersion (outState W1)
            \<and> mi = sum_list (locked_coin_deltas (vMoves sd) (locked_of (outState W1))))
     \<and> hashBlock (outState W) = newHash sd
     \<and> (\<exists>W'. Banking F W' = Inr W)
     \<and> T = \<lparr>tiles = [], built = False\<rparr>"
proof -
  from kh have k: "keeps_hash (KillSpawnArea F)" "keeps_hash (KillRangedAttacks F)"
    "keeps_hash (FinaliseKills F)" "keeps_hash (RemoveHeartedCharacters F)"
    "\<forall>m. keeps_hash (ApplyWaypoints F m)" "keeps_hash (Pass2_Melee F)"
    "\<forall>s. keeps_hash (PathFinding F s)" "keeps_hash (Pass3_PaymentAndHitscan F)"
    "keeps_hash (Pass4_Refund F)"
    by (simp_all add: front_keeps_hash_def)
  from fr have v: "list_all (\<lambda>m. IsValid F m inState) (vMoves sd)"
    by (auto simp: PerformStep_front_def split: if_splits)
  with fr obtain W1 where i: "PerformStep_init F inState sd W0 = Inr W1"
    and r1: "(if STATE_VERSION < dao_MinVersion (outState W1) then Inr (Rejected W1)
        else
          seq (foldE PayGameFee (vMoves sd) (outState W1, 0)) (\<lambda>(st, moneyIn).
          seq (ApplyAttacks (HUNTERMSG_CACHE_MAX F) \<lparr>tiles = [], built = False\<rparr> st (vMoves sd) (huntermsg W1))
            (\<lambda>(T, hm).
          let T' = (if ForkInEffect st FORK_LIFESTEAL then DefendMutualAttacks T else T) in
          seq (DrawLife M (Cache_min_version W1) T' st (stepResult W1)) (\<lambda>(attackedTiles, st', res').
          seq (KillSpawnArea F (W1\<lparr>outState := st', stepResult := res', huntermsg := hm\<rparr>)) (\<lambda>W.
          seq (KillRangedAttacks F W) (\<lambda>W.
          seq (DecrementLife (outState W) (stepResult W)) (\<lambda>(st, res).
          seq (FinaliseKills F (W\<lparr>outState := st, stepResult := res\<rparr>)) (\<lambda>W.
          seq (if IsForkHeight (param (outState W)) FORK_LIFESTEAL (nHeight (outState W))
               then RemoveHeartedCharacters F W else Inr W) (\<lambda>W.
          seq (foldE (ApplyWaypoints F) (filter (\<lambda>m. \<not> IsSpawn m) (vMoves sd)) W) (\<lambda>W.
          seq (Pass2_Melee F W) (\<lambda>W.
          seq (PathFinding F (hashBlock inState) W) (\<lambda>W.
          seq (Pass3_PaymentAndHitscan F W) (\<lambda>W.
          seq (Pass4_Refund F W) (\<lambda>W.
          seq (UpdateCrownState (outState W)) (\<lambda>(st, respawn_crown).
          seq (Banking F (W\<lparr>outState := st\<rparr>)) (\<lambda>W.
          Inr (Reached W attackedTiles moneyIn respawn_crown)))))))))))))))))
        = Inr (Reached W T mi rc)"
    by (auto simp: PerformStep_front_def seq_Inr_iff)
  from r1 have ver: "\<not> STATE_VERSION < dao_MinVersion (outState W1)"
    by (auto split: if_splits)
  have h1: "hashBlock (outState W1) = newHash sd" using kh i by (rule PerformStep_init_hash)
  from r1 ver obtain st2 where f: "foldE PayGameFee (vMoves sd) (outState W1, 0) = Inr (st2, mi)"
    and r2: "seq (ApplyAttacks (HUNTERMSG_CACHE_MAX F) \<lparr>tiles = [], built = False\<rparr> st2 (vMoves sd) (huntermsg W1))
            (\<lambda>(T, hm).
          let T' = (if ForkInEffect st2 FORK_LIFESTEAL then DefendMutualAttacks T else T) in
          seq (DrawLife M (Cache_min_version W1) T' st2 (stepResult W1)) (\<lambda>(attackedTiles, st', res').
          seq (KillSpawnArea F (W1\<lparr>outState := st', stepResult := res', huntermsg := hm\<rparr>)) (\<lambda>W.
          seq (KillRangedAttacks F W) (\<lambda>W.
          seq (DecrementLife (outState W) (stepResult W)) (\<lambda>(st, res).
          seq (FinaliseKills F (W\<lparr>outState := st, stepResult := res\<rparr>)) (\<lambda>W.
          seq (if IsForkHeight (param (outState W)) FORK_LIFESTEAL (nHeight (outState W))
               then RemoveHeartedCharacters F W else Inr W) (\<lambda>W.
          seq (foldE (ApplyWaypoints F) (filter (\<lambda>m. \<not> IsSpawn m) (vMoves sd)) W) (\<lambda>W.
          seq (Pass2_Melee F W) (\<lambda>W.
          seq (PathFinding F (hashBlock inState) W) (\<lambda>W.
          seq (Pass3_PaymentAndHitscan F W) (\<lambda>W.
          seq (Pass4_Refund F W) (\<lambda>W.
          seq (UpdateCrownState (outState W)) (\<lambda>(st, respawn_crown).
          seq (Banking F (W\<lparr>outState := st\<rparr>)) (\<lambda>W.
          Inr (Reached W attackedTiles mi respawn_crown)))))))))))))))
        = Inr (Reached W T mi rc)"
    by (auto simp: seq_Inr_iff Let_def split: prod.splits)
  have h2: "hashBlock st2 = newHash sd" using PayGameFees_hash [OF f] h1 by simp
  have m: "mi = sum_list (locked_coin_deltas (vMoves sd) (locked_of (outState W1)))"
    using PayGameFees_moneyIn [OF f] by simp
  from r2 obtain hm W3 W4 st5 res5 W6 W7 W8 W9 W10 W11 W12 st13 where
    s3: "KillSpawnArea F (W1\<lparr>outState := st2, huntermsg := hm\<rparr>) = Inr W3"
    and s4: "KillRangedAttacks F W3 = Inr W4"
    and s5: "DecrementLife (outState W4) (stepResult W4) = Inr (st5, res5)"
    and s6: "FinaliseKills F (W4\<lparr>outState := st5, stepResult := res5\<rparr>) = Inr W6"
    and s7: "(if IsForkHeight (param (outState W6)) FORK_LIFESTEAL (nHeight (outState W6))
               then RemoveHeartedCharacters F W6 else Inr W6) = Inr W7"
    and s8: "foldE (ApplyWaypoints F) (filter (\<lambda>m. \<not> IsSpawn m) (vMoves sd)) W7 = Inr W8"
    and s9: "Pass2_Melee F W8 = Inr W9"
    and s10: "PathFinding F (hashBlock inState) W9 = Inr W10"
    and s11: "Pass3_PaymentAndHitscan F W10 = Inr W11"
    and s12: "Pass4_Refund F W11 = Inr W12"
    and s13: "UpdateCrownState (outState W12) = Inr (st13, rc)"
    and s14: "Banking F (W12\<lparr>outState := st13\<rparr>) = Inr W"
    and tt: "T = \<lparr>tiles = [], built = False\<rparr>"
    by (auto simp: seq_Inr_iff Let_def DrawLife_unbuilt DefendMutualAttacks_unbuilt
        dest!: ApplyAttacks_fresh split: prod.splits)
  have "hashBlock (outState W3) = newHash sd" using keeps_hashD [OF k(1) s3] h2 by simp
  then have "hashBlock (outState W4) = newHash sd" using keeps_hashD [OF k(2) s4] by simp
  then have "hashBlock st5 = newHash sd" using DecrementLife_hash [OF s5] by simp
  then have "hashBlock (outState W6) = newHash sd" using keeps_hashD [OF k(3) s6] by simp
  then have "hashBlock (outState W7) = newHash sd"
    using s7 keeps_hashD [OF k(4), of W6 W7] by (auto split: if_splits)
  then have "hashBlock (outState W8) = newHash sd" using foldE_keeps_hash [OF k(5) s8] by simp
  then have "hashBlock (outState W9) = newHash sd" using keeps_hashD [OF k(6) s9] by simp
  then have "hashBlock (outState W10) = newHash sd"
    using keeps_hashD [OF k(7) [rule_format] s10] by simp
  then have "hashBlock (outState W11) = newHash sd" using keeps_hashD [OF k(8) s11] by simp
  then have "hashBlock (outState W12) = newHash sd" using keeps_hashD [OF k(9) s12] by simp
  then have "hashBlock st13 = newHash sd" using UpdateCrownState_hash [OF s13] by simp
  then have hW: "hashBlock (outState W) = newHash sd"
    using keeps_hashD [OF Banking_hash s14] by simp
  show ?thesis using v i ver m hW s14 tt by blast
qed

lemma PerformStep_front_Rejected:
  assumes "PerformStep_front F M inState sd W0 = Inr (Rejected W)"
  shows "\<not> list_all (\<lambda>m. IsValid F m inState) (vMoves sd)
     \<or> (\<exists>W1. PerformStep_init F inState sd W0 = Inr W1 \<and> STATE_VERSION < dao_MinVersion (outState W1))"
  using assms
  by (auto simp: PerformStep_front_def seq_Inr_iff Let_def split: if_splits prod.splits)


lemma PerformStep_back_ok:
  assumes "PerformStep_back B M inState sd W T mi rc = Inr (ok, W')"
  shows "ok \<longleftrightarrow> GetCoinsOnMap inState + gameFund inState + nTreasureAmount sd + mi
              = GetCoinsOnMap (outState W') + gameFund (outState W') + moneyOut (stepResult W')"
  using assms
  by (auto simp: PerformStep_back_def CheckForDisaster_def seq_Inr_iff Let_def
      split: prod.splits if_splits)

lemma keeps_hash_Inr: "keeps_hash Inr"
  by (simp add: keeps_hash_def)

lemma idle_front_keeps_hash: "front_keeps_hash idle_front"
  by (simp add: front_keeps_hash_def idle_front_def keeps_hash_def)


text \<open>
  Claim C1. A \<open>PerformStep\<close> that returns for a block whose hash is not null accepts the
  step exactly when every move is valid, the version of the node is not below the one the
  world asks for, and the coins balance: the coins on the map of the state before the step
  (loot on tiles, values of the players, loot of the characters) plus its game fund, plus
  the treasure, plus the locked-coin deltas of the moves, are the coins on the map of the
  state after the step plus its game fund, plus the tax and the bounties of the step result.
  So an accepted step conserves coins, and a step whose coins do not balance is refused.
\<close>

theorem PerformStep_conservation:
  assumes "newHash sd \<noteq> 0"
      and "front_keeps_hash F"
      and "PerformStep F B M inState sd W0 = Inr (ok, W)"
  shows "ok \<longleftrightarrow>
           list_all (\<lambda>m. IsValid F m inState) (vMoves sd)
         \<and> (\<exists>W1. PerformStep_init F inState sd W0 = Inr W1
                \<and> \<not> STATE_VERSION < dao_MinVersion (outState W1)
                \<and> GetCoinsOnMap inState + gameFund inState + nTreasureAmount sd
                    + sum_list (locked_coin_deltas (vMoves sd) (locked_of (outState W1)))
                  = GetCoinsOnMap (outState W) + gameFund (outState W) + moneyOut (stepResult W))"
proof -
  from assms(3) obtain fr where fr: "PerformStep_front F M inState sd W0 = Inr fr"
    and r: "(case fr of
         Rejected W \<Rightarrow> Inr (False, W)
       | Reached W attackedTiles moneyIn respawn_crown \<Rightarrow>
           if hashBlock (outState W) = 0 then Inr (True, W)
           else PerformStep_back B M inState sd W attackedTiles moneyIn respawn_crown) = Inr (ok, W)"
    by (auto simp: PerformStep_def seq_Inr_iff)
  show ?thesis
  proof (cases fr)
    case (Rejected W')
    with r have "\<not> ok" by simp
    moreover from PerformStep_front_Rejected [OF fr [unfolded Rejected]]
    have "\<not> list_all (\<lambda>m. IsValid F m inState) (vMoves sd)
       \<or> (\<exists>W1. PerformStep_init F inState sd W0 = Inr W1 \<and> STATE_VERSION < dao_MinVersion (outState W1))" .
    ultimately show ?thesis by auto
  next
    case (Reached W' T mi rc)
    from PerformStep_front_Reached [OF assms(2) fr [unfolded Reached]]
    obtain W1 where v: "list_all (\<lambda>m. IsValid F m inState) (vMoves sd)"
      and i: "PerformStep_init F inState sd W0 = Inr W1"
      and ver: "\<not> STATE_VERSION < dao_MinVersion (outState W1)"
      and m: "mi = sum_list (locked_coin_deltas (vMoves sd) (locked_of (outState W1)))"
      and h: "hashBlock (outState W') = newHash sd"
      by blast
    from r Reached h assms(1)
    have "PerformStep_back B M inState sd W' T mi rc = Inr (ok, W)" by simp
    from PerformStep_back_ok [OF this] m v i ver show ?thesis by auto
  qed
qed

text \<open>On the example world the player \<open>a\<close> raises its locked coins by 5 and a treasure
  of 100 is dropped: 3250 coins before, 3355 after.\<close>

theorem PerformStep_conservation_witness:
  "\<exists>W. PerformStep idle_front idle_back example_map example_state example_step example_world
         = Inr (True, W)
     \<and> GetCoinsOnMap example_state + gameFund example_state = 3250
     \<and> nTreasureAmount example_step = 100
     \<and> locked_coin_deltas (vMoves example_step) (locked_of example_state) = [5]
     \<and> GetCoinsOnMap (outState W) + gameFund (outState W) + moneyOut (stepResult W) = 3355"
proof -
  let ?r = "PerformStep idle_front idle_back example_map example_state example_step example_world"
  have "case ?r of Inl e \<Rightarrow> False | Inr (ok, W) \<Rightarrow> ok" by code_simp
  then obtain W where r: "?r = Inr (True, W)"
    by (auto split: sum.splits prod.splits)
  have h: "newHash example_step \<noteq> 0" by (simp add: example_step_def)
  have b: "GetCoinsOnMap example_state + gameFund example_state = 3250" by code_simp
  have d: "locked_coin_deltas (vMoves example_step) (locked_of example_state) = [5]" by code_simp
  have l: "locked_of (outState W1) = locked_of example_state"
    if "PerformStep_init idle_front example_state example_step example_world = Inr W1" for W1
    using that
    by (auto simp: PerformStep_init_def idle_front_def seq_def Let_def locked_of_def
        split: if_splits)
  from PerformStep_conservation [OF h idle_front_keeps_hash r]
  obtain W1 where i: "PerformStep_init idle_front example_state example_step example_world = Inr W1"
    and e: "GetCoinsOnMap example_state + gameFund example_state + nTreasureAmount example_step
              + sum_list (locked_coin_deltas (vMoves example_step) (locked_of (outState W1)))
            = GetCoinsOnMap (outState W) + gameFund (outState W) + moneyOut (stepResult W)"
    by auto
  have t: "nTreasureAmount example_step = 100" by (simp add: example_step_def)
  from e have "GetCoinsOnMap (outState W) + gameFund (outState W) + moneyOut (stepResult W) = 3355"
    unfolding l [OF i] b d t by simp
  with r b d t show ?thesis by simp
qed

text \<open>
  Claim C3, as the code has it. For a block whose hash is null, whose moves are all valid
  and whose world does not ask for a version above \<open>STATE_VERSION\<close>, a \<open>PerformStep\<close> that
  returns accepts the step and returns the world as the banking pass left it, with the tax
  collected up to there: it reached the test of the hash, and its result is the same
  whatever the passes after that test are, so that none of them ran.
\<close>

theorem PerformStep_null_hash:
  assumes "newHash sd = 0"
      and "front_keeps_hash F"
      and "list_all (\<lambda>m. IsValid F m inState) (vMoves sd)"
      and "PerformStep_init F inState sd W0 = Inr W1"
      and "\<not> STATE_VERSION < dao_MinVersion (outState W1)"
      and "PerformStep F B M inState sd W0 = Inr (ok, W)"
  shows "ok \<and> (\<exists>W'. Banking F W' = Inr W)
       \<and> (\<exists>T mi rc. PerformStep_front F M inState sd W0 = Inr (Reached W T mi rc))
       \<and> (\<forall>B'. PerformStep F B' M inState sd W0 = Inr (True, W))"
proof -
  from assms(6) obtain fr where fr: "PerformStep_front F M inState sd W0 = Inr fr"
    and r: "(case fr of
         Rejected W \<Rightarrow> Inr (False, W)
       | Reached W attackedTiles moneyIn respawn_crown \<Rightarrow>
           if hashBlock (outState W) = 0 then Inr (True, W)
           else PerformStep_back B M inState sd W attackedTiles moneyIn respawn_crown) = Inr (ok, W)"
    by (auto simp: PerformStep_def seq_Inr_iff)
  show ?thesis
  proof (cases fr)
    case (Rejected W')
    from PerformStep_front_Rejected [OF fr [unfolded Rejected]] assms(3,4,5)
    show ?thesis by auto
  next
    case (Reached W' T mi rc)
    from PerformStep_front_Reached [OF assms(2) fr [unfolded Reached]]
    have h: "hashBlock (outState W') = newHash sd" and bk: "\<exists>V. Banking F V = Inr W'"
      by blast+
    from r Reached h assms(1) have ok and w: "W = W'" by simp_all
    have "PerformStep F B' M inState sd W0 = Inr (True, W)" for B'
      using fr Reached h assms(1) w by (simp add: PerformStep_def seq_def)
    with \<open>ok\<close> bk w fr Reached show ?thesis by auto
  qed
qed

text \<open>On the example world with a null hash the step is accepted after the fee of 5 went to
  the game fund; no treasure was dropped.\<close>

theorem PerformStep_null_hash_witness:
  "\<exists>W. PerformStep idle_front idle_back example_map example_state null_step example_world
         = Inr (True, W)
     \<and> (\<exists>W'. Banking idle_front W' = Inr W)
     \<and> nTaxAmount (stepResult W) = 0 \<and> gameFund (outState W) = 5"
proof -
  let ?r = "PerformStep idle_front idle_back example_map example_state null_step example_world"
  have "case ?r of Inl e \<Rightarrow> False
        | Inr (ok, W) \<Rightarrow> nTaxAmount (stepResult W) = 0 \<and> gameFund (outState W) = 5"
    by code_simp
  then obtain ok W where r: "?r = Inr (ok, W)"
    and t: "nTaxAmount (stepResult W) = 0" "gameFund (outState W) = 5"
    by (auto split: sum.splits prod.splits)
  have h: "newHash null_step = 0" by (simp add: null_step_def)
  have v: "list_all (\<lambda>m. IsValid idle_front m example_state) (vMoves null_step)" by code_simp
  have "case PerformStep_init idle_front example_state null_step example_world of
          Inl e \<Rightarrow> False | Inr W1 \<Rightarrow> \<not> STATE_VERSION < dao_MinVersion (outState W1)"
    by code_simp
  then obtain W1 where i: "PerformStep_init idle_front example_state null_step example_world = Inr W1"
    and ver: "\<not> STATE_VERSION < dao_MinVersion (outState W1)"
    by (auto split: sum.splits)
  from PerformStep_null_hash [OF h idle_front_keeps_hash v i ver r] r t
  show ?thesis by auto
qed

text \<open>
  Claim C3 as written fails for a world that asks for a version above \<open>STATE_VERSION\<close>:
  with a null hash \<open>PerformStep\<close> refuses the step before the fees are paid.
\<close>

theorem PerformStep_null_hash_counterexample:
  "newHash null_step = 0
   \<and> (case PerformStep idle_front idle_back example_map obsolete_state null_step example_world of
        Inl e \<Rightarrow> False
      | Inr (ok, W) \<Rightarrow> \<not> ok \<and> dao_MinVersion (outState W) = 2020700
                       \<and> gameFund (outState W) = 0)"
  by code_simp

end
